theory Spec2Isabelle
  imports Complex_Main "HOL-Library.Char_ord" "HOL-Library.List_Lexorder"
begin

section \<open>Values, exceptions and data frames\<close>

text \<open>
  The two scripts of the repository (\<^verbatim>\<open>level1_metadata_analysis.py\<close> and
  \<^verbatim>\<open>level2_metadata_analysis.py\<close>) are straight-line programs over pandas data frames.
  A cell of a frame is a string, a number, a boolean or the missing value (pandas' NaN/None,
  which \<^verbatim>\<open>dropna\<close> and \<^verbatim>\<open>isnull\<close> treat alike). A number is given by its value, a rational;
  a Python float that may be NaN is a \<open>pyfloat\<close>.
\<close>

datatype cell = Null | Str string | Num rat | Flag bool

datatype pyfloat = NaN | Fl rat

text \<open>
  The exceptions the scripts can meet: pandas' \<^verbatim>\<open>KeyError\<close> for a column that is not in the
  frame (with the missing labels), \<^verbatim>\<open>ValueError\<close> of the statistics library, and whatever
  the query client raises (\<open>QueryError\<close>, with its message).
\<close>

datatype exn = KeyError "string list" | ValueError string | QueryError string

type_synonym series = "cell list"

text \<open>
  A data frame is the list of its columns, in order, each a label and a series.
  \<^verbatim>\<open>pd.DataFrame()\<close> is the frame with no column.
\<close>

type_synonym dataframe = "(string \<times> series) list"

definition empty_frame :: dataframe where
  "empty_frame = []"

definition bnd :: "exn + 'a \<Rightarrow> ('a \<Rightarrow> exn + 'b) \<Rightarrow> exn + 'b" where
  "bnd m f = (case m of Inl e \<Rightarrow> Inl e | Inr x \<Rightarrow> f x)"

fun collect :: "(exn + 'a) list \<Rightarrow> exn + 'a list" where
  "collect [] = Inr []"
| "collect (m # ms) = bnd m (\<lambda>x. bnd (collect ms) (\<lambda>xs. Inr (x # xs)))"

text \<open>\<^verbatim>\<open>df[c]\<close>: the column labelled \<open>c\<close>, or \<^verbatim>\<open>KeyError\<close>.\<close>

definition getitem :: "dataframe \<Rightarrow> string \<Rightarrow> exn + series" where
  "getitem df c = (case map_of df c of None \<Rightarrow> Inl (KeyError [c]) | Some s \<Rightarrow> Inr s)"

text \<open>\<^verbatim>\<open>df[c] = s\<close>: replaces the column in place, or appends a new last column.\<close>

fun setitem :: "dataframe \<Rightarrow> string \<Rightarrow> series \<Rightarrow> dataframe" where
  "setitem [] c s = [(c, s)]"
| "setitem ((c', s') # df) c s = (if c' = c then (c, s) # df else (c', s') # setitem df c s)"

text \<open>Selection by a boolean mask, on a series (\<^verbatim>\<open>s[mask]\<close>) and on a frame (\<^verbatim>\<open>df[mask]\<close>).\<close>

definition select :: "bool list \<Rightarrow> 'a list \<Rightarrow> 'a list" where
  "select m xs = map snd (filter fst (zip m xs))"

definition df_mask :: "dataframe \<Rightarrow> bool list \<Rightarrow> dataframe" where
  "df_mask df m = map (\<lambda>(c, s). (c, select m s)) df"

definition ne_mask :: "series \<Rightarrow> cell \<Rightarrow> bool list" where
  "ne_mask s v = map (\<lambda>x. x \<noteq> v) s"

definition eq_mask :: "series \<Rightarrow> cell \<Rightarrow> bool list" where
  "eq_mask s v = map (\<lambda>x. x = v) s"

definition isnull :: "series \<Rightarrow> bool list" where
  "isnull s = map (\<lambda>x. x = Null) s"

definition notna :: "series \<Rightarrow> bool list" where
  "notna s = map (\<lambda>x. x \<noteq> Null) s"

definition and_masks :: "bool list \<Rightarrow> bool list \<Rightarrow> bool list" where
  "and_masks a b = map (\<lambda>(x, y). x \<and> y) (zip a b)"

definition nrows :: "dataframe \<Rightarrow> nat" where
  "nrows df = (case df of [] \<Rightarrow> 0 | (c, s) # rest \<Rightarrow> length s)"

text \<open>
  \<^verbatim>\<open>df.dropna(subset=cols)\<close>: \<^verbatim>\<open>KeyError\<close> with the labels of \<open>cols\<close> that are not columns of
  the frame; otherwise the rows in which every column of \<open>cols\<close> is present.
\<close>

definition dropna :: "dataframe \<Rightarrow> string list \<Rightarrow> exn + dataframe" where
  "dropna df cols =
     (case filter (\<lambda>c. map_of df c = None) cols of
        [] \<Rightarrow> Inr (df_mask df
                (foldr (\<lambda>c m. and_masks (notna (the (map_of df c))) m) cols
                   (replicate (nrows df) True)))
      | missing \<Rightarrow> Inl (KeyError missing))"

text \<open>\<^verbatim>\<open>Series.unique()\<close>: the distinct values in order of first appearance.\<close>

fun unique :: "'a list \<Rightarrow> 'a list" where
  "unique [] = []"
| "unique (x # xs) = x # filter (\<lambda>y. y \<noteq> x) (unique xs)"

section \<open>The cohort queries\<close>

subsection \<open>The query texts\<close>

text \<open>
  Both scripts read the dataset identifier with \<^verbatim>\<open>os.environ.get('WORKSPACE_CDR')\<close>, which is
  \<^verbatim>\<open>None\<close> when the variable is not set, test it for truth (\<^verbatim>\<open>None\<close> and the empty string are
  false), print one of two lines and go on. The query texts are f-strings: the identifier is
  rendered by \<^verbatim>\<open>str\<close>, so \<^verbatim>\<open>None\<close> becomes the text \<^verbatim>\<open>None\<close>.
\<close>

definition truthy :: "string option \<Rightarrow> bool" where
  "truthy cdr = (case cdr of None \<Rightarrow> False | Some s \<Rightarrow> s \<noteq> [])"

definition fmt_id :: "string option \<Rightarrow> string" where
  "fmt_id cdr = (case cdr of None \<Rightarrow> ''None'' | Some s \<Rightarrow> s)"

definition banner :: "string option \<Rightarrow> string" where
  "banner cdr =
     (if truthy cdr then ''Querying CDR: '' @ fmt_id cdr
      else ''Error: WORKSPACE_CDR environment variable not set.'')"

definition nl :: char where
  "nl = CHR 0x0A"

text \<open>A triple-quoted text that opens with a line break and closes after the last line's.\<close>

definition triple_quoted :: "string list \<Rightarrow> string" where
  "triple_quoted ls = nl # concat (map (\<lambda>l. l @ [nl]) ls)"

definition sql_query_l2_lines :: "string option \<Rightarrow> string list" where
  "sql_query_l2_lines cdr =
     [''SELECT'',
      ''    p.person_id,'',
      ''    (2025 - p.year_of_birth) AS age,'',
      ''    c_sex.concept_name AS sex_at_birth,'',
      ''    c_race.concept_name AS race,'',
      ''    c_eth.concept_name AS ethnicity,'',
      ''    ses.median_income,'',
      ''    ses.fraction_poverty,'',
      ''    ses.fraction_no_health_ins'',
      ''FROM'',
      ''    `'' @ fmt_id cdr @ ''.person` p'',
      ''LEFT JOIN'',
      ''    `'' @ fmt_id cdr @ ''.concept` c_sex ON p.sex_at_birth_concept_id = c_sex.concept_id'',
      ''LEFT JOIN'',
      ''    `'' @ fmt_id cdr @ ''.concept` c_race ON p.race_concept_id = c_race.concept_id'',
      ''LEFT JOIN'',
      ''    `'' @ fmt_id cdr @ ''.concept` c_eth ON p.ethnicity_concept_id = c_eth.concept_id'',
      ''LEFT JOIN'',
      ''    `'' @ fmt_id cdr @ ''.observation` AS obs'',
      ''ON'',
      ''    p.person_id = obs.person_id AND obs.observation_source_concept_id = 1585250 -- 1585250 is the concept ID for 3-digit ZIP'',
      ''LEFT JOIN'',
      ''    `'' @ fmt_id cdr @ ''.zip3_ses_map` AS ses'',
      ''ON'',
      ''    obs.value_as_string = ses.zip3_as_string'']"

definition sql_query_l2 :: "string option \<Rightarrow> string" where
  "sql_query_l2 cdr = triple_quoted (sql_query_l2_lines cdr)"

definition sql_query_l1_lines :: "string option \<Rightarrow> string list" where
  "sql_query_l1_lines cdr =
     [''SELECT'',
      ''    (2025 - p.year_of_birth) AS age,'',
      ''    c_sex.concept_name AS sex_at_birth,'',
      ''    c_race.concept_name AS race,'',
      ''    c_eth.concept_name AS ethnicity'',
      ''FROM'',
      ''    `'' @ fmt_id cdr @ ''.person` p'',
      ''LEFT JOIN'',
      ''    `'' @ fmt_id cdr @ ''.concept` c_sex ON p.sex_at_birth_concept_id = c_sex.concept_id'',
      ''LEFT JOIN'',
      ''    `'' @ fmt_id cdr @ ''.concept` c_race ON p.race_concept_id = c_race.concept_id'',
      ''LEFT JOIN'',
      ''    `'' @ fmt_id cdr @ ''.concept` c_eth ON p.ethnicity_concept_id = c_eth.concept_id'']"

definition sql_query_l1 :: "string option \<Rightarrow> string" where
  "sql_query_l1 cdr = triple_quoted (sql_query_l1_lines cdr)"

definition sql_query_ses_lines :: "string option \<Rightarrow> string list" where
  "sql_query_ses_lines cdr =
     [''SELECT'',
      ''    ses.median_income,'',
      ''    ses.fraction_poverty,'',
      ''    ses.fraction_no_health_ins'',
      ''FROM'',
      ''    `'' @ fmt_id cdr @ ''.observation` AS obs'',
      ''JOIN'',
      ''    `'' @ fmt_id cdr @ ''.zip3_ses_map` AS ses'',
      ''ON'',
      ''    obs.value_as_string = ses.zip3_as_string'',
      ''WHERE'',
      ''    obs.observation_source_concept_id = 1585250'']"

definition sql_query_ses :: "string option \<Rightarrow> string" where
  "sql_query_ses cdr = triple_quoted (sql_query_ses_lines cdr)"

subsection \<open>What the queries compute\<close>

text \<open>
  The four tables, with the columns the queries name. A column that may be NULL is an
  option. In SQL a comparison with NULL is never true, so a NULL key matches no row.
\<close>

record person_row =
  person_id :: int
  year_of_birth :: "int option"
  sex_at_birth_concept_id :: "int option"
  race_concept_id :: "int option"
  ethnicity_concept_id :: "int option"

record concept_row =
  concept_id :: int
  concept_name :: "string option"

record observation_row =
  obs_person_id :: int
  observation_source_concept_id :: "int option"
  value_as_string :: "string option"

record ses_row =
  zip3_as_string :: "string option"
  median_income :: "rat option"
  fraction_poverty :: "rat option"
  fraction_no_health_ins :: "rat option"

record dataset =
  person :: "person_row list"
  concept :: "concept_row list"
  observation :: "observation_row list"
  zip3_ses_map :: "ses_row list"

definition sql_eq :: "'a option \<Rightarrow> 'a option \<Rightarrow> bool" where
  "sql_eq a b = (case a of None \<Rightarrow> False | Some x \<Rightarrow> (case b of None \<Rightarrow> False | Some y \<Rightarrow> x = y))"

text \<open>
  \<^verbatim>\<open>l LEFT JOIN r ON cond\<close>: every left row with each right row that matches it, and with
  NULLs (\<open>None\<close>) when none does. \<^verbatim>\<open>l JOIN r ON cond\<close> keeps the matching pairs only.
\<close>

definition left_join :: "('a \<Rightarrow> 'b \<Rightarrow> bool) \<Rightarrow> 'a list \<Rightarrow> 'b list \<Rightarrow> ('a \<times> 'b option) list" where
  "left_join cond ls rs =
     concat (map (\<lambda>l. case filter (cond l) rs of
                          [] \<Rightarrow> [(l, None)]
                        | m # ms \<Rightarrow> map (\<lambda>r. (l, Some r)) (m # ms)) ls)"

definition inner_join :: "('a \<Rightarrow> 'b \<Rightarrow> bool) \<Rightarrow> 'a list \<Rightarrow> 'b list \<Rightarrow> ('a \<times> 'b) list" where
  "inner_join cond ls rs = concat (map (\<lambda>l. map (\<lambda>r. (l, r)) (filter (cond l) rs)) ls)"

text \<open>The three concept joins, shared by the demographics query and the combined query.\<close>

definition join_sex ::
  "dataset \<Rightarrow> (person_row \<times> concept_row option) list" where
  "join_sex ds =
     left_join (\<lambda>p c. sql_eq (sex_at_birth_concept_id p) (Some (concept_id c)))
       (person ds) (concept ds)"

definition join_race ::
  "dataset \<Rightarrow> ((person_row \<times> concept_row option) \<times> concept_row option) list" where
  "join_race ds =
     left_join (\<lambda>(p, c_sex) c. sql_eq (race_concept_id p) (Some (concept_id c)))
       (join_sex ds) (concept ds)"

definition join_eth ::
  "dataset \<Rightarrow> (((person_row \<times> concept_row option) \<times> concept_row option) \<times> concept_row option) list" where
  "join_eth ds =
     left_join (\<lambda>((p, c_sex), c_race) c. sql_eq (ethnicity_concept_id p) (Some (concept_id c)))
       (join_race ds) (concept ds)"

text \<open>The combined query goes on with the postal-prefix observation, then the SES lookup.\<close>

definition join_obs ::
  "dataset \<Rightarrow> ((((person_row \<times> concept_row option) \<times> concept_row option) \<times> concept_row option)
       \<times> observation_row option) list" where
  "join_obs ds =
     left_join (\<lambda>(((p, c_sex), c_race), c_eth) obs.
                  person_id p = obs_person_id obs \<and>
                  sql_eq (observation_source_concept_id obs) (Some 1585250))
       (join_eth ds) (observation ds)"

definition join_ses ::
  "dataset \<Rightarrow> (((((person_row \<times> concept_row option) \<times> concept_row option) \<times> concept_row option)
       \<times> observation_row option) \<times> ses_row option) list" where
  "join_ses ds =
     left_join (\<lambda>((((p, c_sex), c_race), c_eth), obs) ses.
                  (case obs of None \<Rightarrow> False
                   | Some ob \<Rightarrow> sql_eq (value_as_string ob) (zip3_as_string ses)))
       (join_obs ds) (zip3_ses_map ds)"

text \<open>The SELECT lists. A column of a row that the outer join filled with NULLs is NULL.\<close>

definition age_of :: "person_row \<Rightarrow> int option" where
  "age_of p = map_option (\<lambda>y. 2025 - y) (year_of_birth p)"

definition name_of :: "concept_row option \<Rightarrow> string option" where
  "name_of c = Option.bind c concept_name"

record subject_row =
  s_person_id :: int
  s_age :: "int option"
  s_sex_at_birth :: "string option"
  s_race :: "string option"
  s_ethnicity :: "string option"
  s_median_income :: "rat option"
  s_fraction_poverty :: "rat option"
  s_fraction_no_health_ins :: "rat option"

type_synonym joined_row =
  "((((person_row \<times> concept_row option) \<times> concept_row option) \<times> concept_row option)
       \<times> observation_row option) \<times> ses_row option"

definition select_combined :: "joined_row \<Rightarrow> subject_row" where
  "select_combined j =
     (case j of (((((p, c_sex), c_race), c_eth), obs), ses) \<Rightarrow>
        \<lparr>s_person_id = person_id p, s_age = age_of p,
         s_sex_at_birth = name_of c_sex, s_race = name_of c_race,
         s_ethnicity = name_of c_eth,
         s_median_income = Option.bind ses median_income,
         s_fraction_poverty = Option.bind ses fraction_poverty,
         s_fraction_no_health_ins = Option.bind ses fraction_no_health_ins\<rparr>)"

definition combined_rows :: "dataset \<Rightarrow> subject_row list" where
  "combined_rows ds = map select_combined (join_ses ds)"

definition demographics_rows ::
  "dataset \<Rightarrow> (int option \<times> string option \<times> string option \<times> string option) list" where
  "demographics_rows ds =
     map (\<lambda>(((p, c_sex), c_race), c_eth). (age_of p, name_of c_sex, name_of c_race, name_of c_eth))
       (join_eth ds)"

text \<open>
  The SES query of level 1 starts from the observations, joins the lookup with a plain
  \<^verbatim>\<open>JOIN\<close> and keeps the observations of the postal-prefix question (\<^verbatim>\<open>WHERE\<close>).
\<close>

definition ses_rows :: "dataset \<Rightarrow> (rat option \<times> rat option \<times> rat option) list" where
  "ses_rows ds =
     map (\<lambda>(obs, ses). (median_income ses, fraction_poverty ses, fraction_no_health_ins ses))
       (filter (\<lambda>(obs, ses). sql_eq (observation_source_concept_id obs) (Some 1585250))
          (inner_join (\<lambda>obs ses. sql_eq (value_as_string obs) (zip3_as_string ses))
             (observation ds) (zip3_ses_map ds)))"

text \<open>\<^verbatim>\<open>to_dataframe()\<close>: one column per selected expression, also when no row came back.\<close>

definition cell_int :: "int option \<Rightarrow> cell" where
  "cell_int v = (case v of None \<Rightarrow> Null | Some i \<Rightarrow> Num (of_int i))"

definition cell_num :: "rat option \<Rightarrow> cell" where
  "cell_num v = (case v of None \<Rightarrow> Null | Some r \<Rightarrow> Num r)"

definition cell_str :: "string option \<Rightarrow> cell" where
  "cell_str v = (case v of None \<Rightarrow> Null | Some s \<Rightarrow> Str s)"

definition combined_frame :: "dataset \<Rightarrow> dataframe" where
  "combined_frame ds =
     (let rows = combined_rows ds in
      [(''person_id'', map (\<lambda>r. Num (of_int (s_person_id r))) rows),
       (''age'', map (\<lambda>r. cell_int (s_age r)) rows),
       (''sex_at_birth'', map (\<lambda>r. cell_str (s_sex_at_birth r)) rows),
       (''race'', map (\<lambda>r. cell_str (s_race r)) rows),
       (''ethnicity'', map (\<lambda>r. cell_str (s_ethnicity r)) rows),
       (''median_income'', map (\<lambda>r. cell_num (s_median_income r)) rows),
       (''fraction_poverty'', map (\<lambda>r. cell_num (s_fraction_poverty r)) rows),
       (''fraction_no_health_ins'', map (\<lambda>r. cell_num (s_fraction_no_health_ins r)) rows)])"

definition demographics_frame :: "dataset \<Rightarrow> dataframe" where
  "demographics_frame ds =
     (let rows = demographics_rows ds in
      [(''age'', map (\<lambda>(a, s, r, e). cell_int a) rows),
       (''sex_at_birth'', map (\<lambda>(a, s, r, e). cell_str s) rows),
       (''race'', map (\<lambda>(a, s, r, e). cell_str r) rows),
       (''ethnicity'', map (\<lambda>(a, s, r, e). cell_str e) rows)])"

definition ses_frame :: "dataset \<Rightarrow> dataframe" where
  "ses_frame ds =
     (let rows = ses_rows ds in
      [(''median_income'', map (\<lambda>(i, p, h). cell_num i) rows),
       (''fraction_poverty'', map (\<lambda>(i, p, h). cell_num p) rows),
       (''fraction_no_health_ins'', map (\<lambda>(i, p, h). cell_num h) rows)])"

text \<open>
  The lookups are unique-keyed on their join keys: no concept identifier twice, no postal
  prefix twice in the SES lookup, and at most one postal-prefix observation for a person.
\<close>

definition unique_keyed :: "dataset \<Rightarrow> bool" where
  "unique_keyed ds \<longleftrightarrow>
     distinct (map concept_id (concept ds)) \<and>
     distinct (filter (\<lambda>k. k \<noteq> None) (map zip3_as_string (zip3_ses_map ds))) \<and>
     distinct (map obs_person_id
       (filter (\<lambda>obs. observation_source_concept_id obs = Some 1585250) (observation ds)))"

subsection \<open>Running a query\<close>

text \<open>
  The warehouse is outside the program: an engine answers a query text with a frame or
  raises. Both scripts wrap the call in \<^verbatim>\<open>try\<close>/\<^verbatim>\<open>except Exception\<close> and put
  \<^verbatim>\<open>pd.DataFrame()\<close> in place of the result when it raises.
\<close>

type_synonym engine = "string \<Rightarrow> exn + dataframe"

definition run_query :: "engine \<Rightarrow> string \<Rightarrow> dataframe" where
  "run_query client q = (case client q of Inl e \<Rightarrow> empty_frame | Inr df \<Rightarrow> df)"

text \<open>
  Two engines to run the scripts on: one that refuses every request, and a warehouse that
  holds the dataset \<open>ds\<close> under the identifier \<open>name\<close> and answers the three queries of the
  scripts as defined above.
\<close>

definition refusing_engine :: engine where
  "refusing_engine q = Inl (QueryError ''Not found'')"

definition warehouse :: "string \<Rightarrow> dataset \<Rightarrow> engine" where
  "warehouse name ds q =
     (if q = sql_query_l2 (Some name) then Inr (combined_frame ds)
      else if q = sql_query_l1 (Some name) then Inr (demographics_frame ds)
      else if q = sql_query_ses (Some name) then Inr (ses_frame ds)
      else Inl (QueryError ''Not found''))"

section \<open>The statistics library\<close>

text \<open>
  The tests themselves are library code. \<^verbatim>\<open>scipy.stats.kruskal\<close> raises \<^verbatim>\<open>ValueError\<close> when it
  is given fewer than two samples; what it computes otherwise, and what Dunn's test and the
  chi-square test compute, is a parameter of the model.
\<close>

record stats_lib =
  kruskal_hp :: "series list \<Rightarrow> exn + (pyfloat \<times> pyfloat)"
  posthoc_dunn_bonferroni :: "series \<Rightarrow> series \<Rightarrow> exn + dataframe"
  chi2_contingency :: "nat list list \<Rightarrow> exn + (pyfloat \<times> pyfloat \<times> nat \<times> rat list list)"

definition kruskal :: "stats_lib \<Rightarrow> series list \<Rightarrow> exn + (pyfloat \<times> pyfloat)" where
  "kruskal L samples =
     (if length samples < 2 then Inl (ValueError ''Need at least two groups in stats.kruskal()'')
      else kruskal_hp L samples)"

text \<open>
  \<^verbatim>\<open>sp.posthoc_dunn(a, val_col, group_col, p_adjust='bonferroni')\<close> reads the two named columns
  of the frame.
\<close>

definition posthoc_dunn :: "stats_lib \<Rightarrow> dataframe \<Rightarrow> string \<Rightarrow> string \<Rightarrow> exn + dataframe" where
  "posthoc_dunn L a val_col group_col =
     bnd (getitem a val_col) (\<lambda>vals.
     bnd (getitem a group_col) (\<lambda>grps. posthoc_dunn_bonferroni L vals grps))"

text \<open>A library whose tests all report the p-value \<open>p\<close>, to run the scripts on.\<close>

definition fixed_lib :: "pyfloat \<Rightarrow> stats_lib" where
  "fixed_lib p =
     \<lparr>kruskal_hp = (\<lambda>samples. Inr (Fl 0, p)),
      posthoc_dunn_bonferroni = (\<lambda>vals grps. Inr []),
      chi2_contingency = (\<lambda>table. Inr (Fl 0, p, 0, []))\<rparr>"

section \<open>The annotation text\<close>

text \<open>
  The literals \<^verbatim>\<open>0.05\<close> and \<^verbatim>\<open>0.001\<close> denote the nearest doubles, which are these rationals;
  a comparison of two doubles is the comparison of their values, and false when one is NaN.
\<close>

definition alpha :: rat where
  "alpha = 3602879701896397 / 2 ^ 56"

definition tiny :: rat where
  "tiny = 1152921504606847 / 2 ^ 60"

definition fl_less :: "pyfloat \<Rightarrow> rat \<Rightarrow> bool" where
  "fl_less x c = (case x of NaN \<Rightarrow> False | Fl r \<Rightarrow> r < c)"

text \<open>
  The format \<^verbatim>\<open>{pvalue:.3f}\<close>: three decimals of the exact value, rounded to nearest with
  ties to even; NaN prints as \<^verbatim>\<open>nan\<close>.
\<close>

definition round_half_even :: "rat \<Rightarrow> int" where
  "round_half_even q =
     (let f = \<lfloor>q\<rfloor>; d = q - of_int f
      in if d < 1 / 2 then f else if 1 / 2 < d then f + 1 else if even f then f else f + 1)"

definition digit :: "nat \<Rightarrow> char" where
  "digit d = ''0123456789'' ! (d mod 10)"

fun str_nat :: "nat \<Rightarrow> string" where
  "str_nat n = (if n < 10 then [digit n] else str_nat (n div 10) @ [digit n])"

definition fmt3 :: "pyfloat \<Rightarrow> string" where
  "fmt3 x =
     (case x of
        NaN \<Rightarrow> ''nan''
      | Fl r \<Rightarrow>
          (let n = nat (round_half_even (\<bar>r\<bar> * 1000))
           in (if r < 0 then ''-'' else []) @ str_nat (n div 1000) @ ''.'' @
              [digit (n div 100), digit (n div 10), digit n]))"

definition p_text :: "pyfloat \<Rightarrow> string" where
  "p_text pvalue = (if fl_less pvalue tiny then ''p < 0.001'' else ''p = '' @ fmt3 pvalue)"

text \<open>
  The three annotation blocks of level 2 differ in two words only (\<open>what\<close>: Deviation or
  Difference; \<open>test\<close>: Kruskal-Wallis or Chi-Square). The result is the text and the box colour.
\<close>

definition stat_text :: "string \<Rightarrow> string \<Rightarrow> pyfloat \<Rightarrow> string \<times> string" where
  "stat_text what test pvalue =
     (if fl_less pvalue alpha
      then (''Statistically Significant '' @ what @ [nl] @ ''('' @ test @ '' '' @ p_text pvalue @ '')'',
            ''lightgreen'')
      else (''No Significant '' @ what @ '' Found'' @ [nl] @
              ''('' @ test @ '' p = '' @ fmt3 pvalue @ '')'',
            ''lightgray''))"

section \<open>Double-precision arithmetic\<close>

text \<open>
  pandas computes the percentages in float64. A double is modelled by its value, a rational;
  \<open>round_double\<close> is rounding to the nearest double with ties to even (53 significant bits),
  for a value in the normal range, which is where every quotient and product of the
  scripts lies. \<open>exponent q\<close> is the \<open>e\<close> with \<open>2 powi e \<le> q < 2 powi (e + 1)\<close>, found from
  the bit length of the integer part of \<open>q\<close> (or of \<open>1 / q\<close> below one).
\<close>

fun bit_length :: "nat \<Rightarrow> nat" where
  "bit_length n = (if n = 0 then 0 else Suc (bit_length (n div 2)))"

definition exponent :: "rat \<Rightarrow> int" where
  "exponent q =
     (if 1 \<le> q then int (bit_length (nat \<lfloor>q\<rfloor>)) - 1
      else (let k = int (bit_length (nat \<lfloor>1 / q\<rfloor>)) - 1
            in if q = 2 powi (- k) then - k else - k - 1))"

definition round_double :: "rat \<Rightarrow> rat" where
  "round_double q =
     (if q = 0 then 0
      else (let u = 2 powi (exponent \<bar>q\<bar> - 52)
            in sgn q * of_int (round_half_even (\<bar>q\<bar> / u)) * u))"

definition fl_value :: "pyfloat \<Rightarrow> rat" where
  "fl_value x = (case x of NaN \<Rightarrow> 0 | Fl r \<Rightarrow> r)"

section \<open>Level 2: the analyses\<close>

subsection \<open>Plot 1: income by race\<close>

definition plot_data :: "dataframe \<Rightarrow> exn + dataframe" where
  "plot_data df_analysis =
     bnd (getitem df_analysis ''race'') (\<lambda>race.
       Inr (df_mask df_analysis (ne_mask race (Str ''No matching concept''))))"

definition test_data :: "dataframe \<Rightarrow> exn + dataframe" where
  "test_data df_analysis =
     bnd (dropna df_analysis [''race'', ''median_income'']) (\<lambda>t.
     bnd (getitem t ''race'') (\<lambda>race.
       Inr (df_mask t (ne_mask race (Str ''No matching concept'')))))"

definition groups :: "dataframe \<Rightarrow> exn + cell list" where
  "groups td = bnd (getitem td ''race'') (\<lambda>race. Inr (unique race))"

definition income_by_group :: "dataframe \<Rightarrow> cell list \<Rightarrow> exn + series list" where
  "income_by_group td gs =
     collect (map (\<lambda>g. bnd (getitem td ''median_income'') (\<lambda>income.
                        bnd (getitem td ''race'') (\<lambda>race.
                          Inr (select (eq_mask race g) income)))) gs)"

definition plot1 :: "stats_lib \<Rightarrow> dataframe \<Rightarrow> exn + (string \<times> string)" where
  "plot1 L df_analysis =
     bnd (plot_data df_analysis) (\<lambda>pd.
     bnd (test_data df_analysis) (\<lambda>td.
     bnd (groups td) (\<lambda>gs.
     bnd (income_by_group td gs) (\<lambda>samples.
     bnd (kruskal L samples) (\<lambda>(hvalue, pvalue).
       Inr (stat_text ''Deviation'' ''Kruskal-Wallis'' pvalue))))))"

subsection \<open>The label of plot 2\<close>

definition long_label :: string where
  "long_label = ''What Race Ethnicity: Race Ethnicity None Of These''"

definition short_label :: string where
  "short_label = ''None Of These''"

definition replace_value :: "series \<Rightarrow> cell \<Rightarrow> cell \<Rightarrow> series" where
  "replace_value s a b = map (\<lambda>x. if x = a then b else x) s"

text \<open>The assignment writes into \<^verbatim>\<open>df_analysis\<close> itself: the result is the frame from here on.\<close>

definition clean_ethnicity :: "dataframe \<Rightarrow> exn + dataframe" where
  "clean_ethnicity df_analysis =
     bnd (getitem df_analysis ''ethnicity'') (\<lambda>eth.
       Inr (setitem df_analysis ''ethnicity''
              (replace_value eth (Str long_label) (Str short_label))))"

subsection \<open>Plot 2: poverty by ethnicity, and Dunn's test\<close>

definition test_data_eth :: "dataframe \<Rightarrow> exn + dataframe" where
  "test_data_eth df_analysis = dropna df_analysis [''ethnicity'', ''fraction_poverty'']"

definition groups_eth :: "dataframe \<Rightarrow> exn + cell list" where
  "groups_eth td = bnd (getitem td ''ethnicity'') (\<lambda>eth. Inr (unique eth))"

definition poverty_by_group :: "dataframe \<Rightarrow> cell list \<Rightarrow> exn + series list" where
  "poverty_by_group td gs =
     collect (map (\<lambda>g. bnd (getitem td ''fraction_poverty'') (\<lambda>poverty.
                        bnd (getitem td ''ethnicity'') (\<lambda>eth.
                          Inr (select (eq_mask eth g) poverty)))) gs)"

definition plot2 :: "stats_lib \<Rightarrow> dataframe \<Rightarrow> exn + (string \<times> string)" where
  "plot2 L df_analysis =
     bnd (test_data_eth df_analysis) (\<lambda>td.
     bnd (groups_eth td) (\<lambda>gs.
     bnd (poverty_by_group td gs) (\<lambda>samples.
     bnd (kruskal L samples) (\<lambda>(hvalue, pvalue).
       Inr (stat_text ''Deviation'' ''Kruskal-Wallis'' pvalue)))))"

definition dunn_results :: "stats_lib \<Rightarrow> dataframe \<Rightarrow> exn + dataframe" where
  "dunn_results L df_analysis =
     bnd (test_data_eth df_analysis) (\<lambda>td.
       posthoc_dunn L td ''fraction_poverty'' ''ethnicity'')"

subsection \<open>Plot 3: missing SES data by race\<close>

text \<open>
  \<^verbatim>\<open>groupby\<close> leaves out the rows whose key is missing and sorts the keys. The keys are
  labels; \<open>sort_key\<close> orders them as Python orders strings.
\<close>

definition label :: "cell \<Rightarrow> string" where
  "label v = (case v of Str s \<Rightarrow> s | _ \<Rightarrow> [])"

definition group_keys :: "series \<Rightarrow> cell list" where
  "group_keys s = sort_key label (unique (filter (\<lambda>x. x \<noteq> Null) s))"

text \<open>
  \<^verbatim>\<open>x.isnull().mean() * 100\<close>. The mean of the booleans is their sum divided by their
  number, both as doubles, and the quotient is rounded; the product with 100 is rounded again.
  The mean of no value is NaN.
\<close>

definition isnull_mean :: "series \<Rightarrow> pyfloat" where
  "isnull_mean x =
     (if x = [] then NaN
      else Fl (round_double
             (round_double (of_nat (length (filter (\<lambda>b. b) (isnull x)))) /
              round_double (of_nat (length x)))))"

definition times100 :: "pyfloat \<Rightarrow> pyfloat" where
  "times100 v = (case v of NaN \<Rightarrow> NaN | Fl r \<Rightarrow> Fl (round_double (r * 100)))"

definition missing_data :: "dataframe \<Rightarrow> exn + (cell \<times> pyfloat) list" where
  "missing_data df_analysis =
     bnd (getitem df_analysis ''race'') (\<lambda>race.
     (case map_of df_analysis ''median_income'' of
        None \<Rightarrow> Inl (KeyError [''Column not found: median_income''])
      | Some income \<Rightarrow>
          Inr (map (\<lambda>k. (k, times100 (isnull_mean (select (eq_mask race k) income))))
                 (group_keys race))))"

text \<open>
  \<^verbatim>\<open>sort_values(by=..., ascending=False)\<close>, for the bar chart: the largest percentage first,
  NaN last. (pandas does not fix the order of equal values; here they keep their order.)
\<close>

definition missing_df :: "(cell \<times> pyfloat) list \<Rightarrow> (cell \<times> pyfloat) list" where
  "missing_df md =
     sort_key (\<lambda>(k, v). - fl_value v) (filter (\<lambda>(k, v). v \<noteq> NaN) md) @
     filter (\<lambda>(k, v). v = NaN) md"

text \<open>The new column is written into \<^verbatim>\<open>df_analysis\<close> itself.\<close>

definition add_ses_data_missing :: "dataframe \<Rightarrow> exn + dataframe" where
  "add_ses_data_missing df_analysis =
     bnd (getitem df_analysis ''median_income'') (\<lambda>income.
       Inr (setitem df_analysis ''ses_data_missing'' (map Flag (isnull income))))"

text \<open>
  \<^verbatim>\<open>pd.crosstab(a, b)\<close>: the counts of the pairs, over the rows in which both are present; a
  row for each value of \<open>a\<close> and a column for each value of \<open>b\<close> that occurs, both sorted.
  \<open>b\<close> is the boolean column, and \<^verbatim>\<open>False\<close> sorts before \<^verbatim>\<open>True\<close>.
\<close>

definition crosstab :: "series \<Rightarrow> series \<Rightarrow> nat list list" where
  "crosstab a b =
     (let pairs = filter (\<lambda>(x, y). x \<noteq> Null \<and> y \<noteq> Null) (zip a b);
          cols = filter (\<lambda>c. c \<in> set (map snd pairs)) [Flag False, Flag True]
      in map (\<lambda>r. map (\<lambda>c. length (filter (\<lambda>xy. xy = (r, c)) pairs)) cols)
           (group_keys (map fst pairs)))"

definition contingency_table :: "dataframe \<Rightarrow> exn + nat list list" where
  "contingency_table df_analysis =
     bnd (getitem df_analysis ''race'') (\<lambda>race.
     bnd (getitem df_analysis ''ses_data_missing'') (\<lambda>missing.
       Inr (crosstab race missing)))"

definition plot3 ::
  "stats_lib \<Rightarrow> dataframe \<Rightarrow> exn + (dataframe \<times> (cell \<times> pyfloat) list \<times> (string \<times> string))" where
  "plot3 L df_analysis =
     bnd (missing_data df_analysis) (\<lambda>md.
     bnd (add_ses_data_missing df_analysis) (\<lambda>df'.
     bnd (contingency_table df') (\<lambda>table.
     bnd (chi2_contingency L table) (\<lambda>(chi2, pvalue, dof, expected).
       Inr (df', missing_df md, stat_text ''Difference'' ''Chi-Square'' pvalue)))))"

subsection \<open>The script, from the environment to the last plot\<close>

text \<open>
  What a run leaves behind: the line printed about the identifier, the query texts sent to
  the engine, in order, and either the exception that stopped the script or its results.
  Rendering a chart is a call into the plotting library and is not modelled.
\<close>

record 'a run =
  printed :: string
  requests :: "string list"
  outcome :: "exn + 'a"

record level2_results =
  income_by_race :: "string \<times> string"
  poverty_by_ethnicity :: "string \<times> string"
  dunn_table :: dataframe
  percent_missing :: "(cell \<times> pyfloat) list"
  missing_by_race :: "string \<times> string"
  frame_at_end :: dataframe

text \<open>
  Dunn's test runs on the \<^verbatim>\<open>test_data_eth\<close> of plot 2, which \<open>dunn_results\<close> computes again
  from the same frame.
\<close>

definition analyses_l2 :: "stats_lib \<Rightarrow> dataframe \<Rightarrow> exn + level2_results" where
  "analyses_l2 L df_analysis =
     bnd (plot1 L df_analysis) (\<lambda>t1.
     bnd (clean_ethnicity df_analysis) (\<lambda>df1.
     bnd (plot2 L df1) (\<lambda>t2.
     bnd (dunn_results L df1) (\<lambda>dunn.
     bnd (plot3 L df1) (\<lambda>(df2, mdf, t3).
       Inr \<lparr>income_by_race = t1, poverty_by_ethnicity = t2, dunn_table = dunn,
            percent_missing = mdf, missing_by_race = t3, frame_at_end = df2\<rparr>)))))"

definition run_level2 :: "string option \<Rightarrow> engine \<Rightarrow> stats_lib \<Rightarrow> level2_results run" where
  "run_level2 cdr_dataset_id client L =
     (let sql_query = sql_query_l2 cdr_dataset_id;
          df_analysis = run_query client sql_query
      in \<lparr>printed = banner cdr_dataset_id, requests = [sql_query],
           outcome = analyses_l2 L df_analysis\<rparr>)"

section \<open>Level 1: the distributions\<close>

text \<open>
  \<^verbatim>\<open>value_counts()\<close>: the values that are present with their counts, the most frequent first
  (equal counts in order of first appearance).
\<close>

definition value_counts :: "series \<Rightarrow> (cell \<times> nat) list" where
  "value_counts s =
     sort_key (\<lambda>(v, n). - int n)
       (map (\<lambda>v. (v, length (filter (\<lambda>x. x = v) s))) (unique (filter (\<lambda>x. x \<noteq> Null) s)))"

record level1_demographics =
  age_hist :: dataframe
  sex_order :: "cell list"
  race_order :: "cell list"
  ethnicity_order :: "cell list"

definition demographics_plots :: "dataframe \<Rightarrow> exn + level1_demographics" where
  "demographics_plots df_demographics =
     bnd (dropna df_demographics [''age'']) (\<lambda>h.
     bnd (getitem df_demographics ''sex_at_birth'') (\<lambda>sex.
     bnd (getitem df_demographics ''race'') (\<lambda>race.
     bnd (getitem df_demographics ''ethnicity'') (\<lambda>eth.
       Inr \<lparr>age_hist = h, sex_order = map fst (value_counts sex),
            race_order = map fst (value_counts race),
            ethnicity_order = map fst (value_counts eth)\<rparr>))))"

definition ses_plots :: "dataframe \<Rightarrow> exn + (dataframe \<times> dataframe \<times> dataframe)" where
  "ses_plots df_ses =
     bnd (dropna df_ses [''median_income'']) (\<lambda>h5.
     bnd (dropna df_ses [''fraction_poverty'']) (\<lambda>h6.
     bnd (dropna df_ses [''fraction_no_health_ins'']) (\<lambda>h7.
       Inr (h5, h6, h7))))"

text \<open>The SES query is built and sent after the four demographic plots.\<close>

definition run_level1 ::
  "string option \<Rightarrow> engine \<Rightarrow> (level1_demographics \<times> dataframe \<times> dataframe \<times> dataframe) run" where
  "run_level1 cdr_dataset_id client =
     (let sql_query = sql_query_l1 cdr_dataset_id;
          df_demographics = run_query client sql_query
      in case demographics_plots df_demographics of
           Inl e \<Rightarrow> \<lparr>printed = banner cdr_dataset_id, requests = [sql_query], outcome = Inl e\<rparr>
         | Inr d \<Rightarrow>
             (let sql_query_ses = sql_query_ses cdr_dataset_id;
                  df_ses = run_query client sql_query_ses
              in \<lparr>printed = banner cdr_dataset_id, requests = [sql_query, sql_query_ses],
                   outcome = bnd (ses_plots df_ses) (\<lambda>s. Inr (d, s))\<rparr>))"

text \<open>A frame is well formed when all its columns have the same length.\<close>

definition well_formed :: "dataframe \<Rightarrow> bool" where
  "well_formed df \<longleftrightarrow> list_all (\<lambda>(c, s). length s = nrows df) df"

section \<open>Example inputs\<close>

text \<open>Small inputs on which the theorems below are instantiated.\<close>

definition sentinel_frame :: dataframe where
  "sentinel_frame =
     [(''race'', [Str ''Asian'', Null, Str ''No matching concept'', Str ''Asian'',
                  Str ''White'']),
      (''median_income'', [Num 41000, Num 52000, Num 38000, Null, Num 60500])]"

text \<open>
  A dataset of three subjects: the first has every label and an SES entry; the second has
  no sex code, a race code the concept table does not hold, and a postal prefix the SES
  lookup does not hold; the third has no year of birth and no postal-prefix observation.
\<close>

definition cohort :: dataset where
  "cohort =
     \<lparr>person =
        [\<lparr>person_id = 1, year_of_birth = Some 1980, sex_at_birth_concept_id = Some 10,
          race_concept_id = Some 20, ethnicity_concept_id = Some 30\<rparr>,
         \<lparr>person_id = 2, year_of_birth = Some 1975, sex_at_birth_concept_id = None,
          race_concept_id = Some 99, ethnicity_concept_id = Some 31\<rparr>,
         \<lparr>person_id = 3, year_of_birth = None, sex_at_birth_concept_id = Some 10,
          race_concept_id = Some 21, ethnicity_concept_id = Some 30\<rparr>],
      concept =
        [\<lparr>concept_id = 10, concept_name = Some ''Female''\<rparr>,
         \<lparr>concept_id = 20, concept_name = Some ''White''\<rparr>,
         \<lparr>concept_id = 21, concept_name = Some ''Asian''\<rparr>,
         \<lparr>concept_id = 30, concept_name = Some ''Not Hispanic or Latino''\<rparr>,
         \<lparr>concept_id = 31,
          concept_name = Some ''What Race Ethnicity: Race Ethnicity None Of These''\<rparr>],
      observation =
        [\<lparr>obs_person_id = 1, observation_source_concept_id = Some 1585250,
          value_as_string = Some ''021''\<rparr>,
         \<lparr>obs_person_id = 1, observation_source_concept_id = Some 1585845,
          value_as_string = Some ''x''\<rparr>,
         \<lparr>obs_person_id = 2, observation_source_concept_id = Some 1585250,
          value_as_string = Some ''999''\<rparr>],
      zip3_ses_map =
        [\<lparr>zip3_as_string = Some ''021'', median_income = Some 52000,
          fraction_poverty = Some 12, fraction_no_health_ins = Some 8\<rparr>,
         \<lparr>zip3_as_string = Some ''100'', median_income = Some 61000,
          fraction_poverty = Some 15, fraction_no_health_ins = Some 6\<rparr>]\<rparr>"

definition second_subject :: joined_row where
  "second_subject =
     (((((\<lparr>person_id = 2, year_of_birth = Some 1975, sex_at_birth_concept_id = None,
           race_concept_id = Some 99, ethnicity_concept_id = Some 31\<rparr>,
          None), None),
        Some \<lparr>concept_id = 31,
              concept_name = Some ''What Race Ethnicity: Race Ethnicity None Of These''\<rparr>),
       Some \<lparr>obs_person_id = 2, observation_source_concept_id = Some 1585250,
             value_as_string = Some ''999''\<rparr>),
      None)"

text \<open>
  Two frames with the long ethnicity label: in the first the subject with that label has a
  poverty value, in the second it has none.
\<close>

definition labelled_frame :: dataframe where
  "labelled_frame =
     [(''ethnicity'',
       [Str ''What Race Ethnicity: Race Ethnicity None Of These'', Str ''Hispanic or Latino'',
        Str ''Not Hispanic or Latino'', Null]),
      (''fraction_poverty'', [Num 20, Num 12, Num 9, Num 11])]"

definition labelled_null_frame :: dataframe where
  "labelled_null_frame =
     [(''ethnicity'',
       [Str ''What Race Ethnicity: Race Ethnicity None Of These'', Str ''Hispanic or Latino'',
        Str ''Not Hispanic or Latino'', Str ''Hispanic or Latino'']),
      (''fraction_poverty'', [Null, Num 12, Num 9, Num 15])]"

text \<open>
  A frame of five subjects on which every analysis of level 2 has at least two groups: the
  first subject has the long ethnicity label.
\<close>

definition analysis_frame :: dataframe where
  "analysis_frame =
     [(''race'', [Str ''White'', Str ''Asian'', Str ''White'', Str ''Asian'',
                  Str ''No matching concept'']),
      (''ethnicity'',
       [Str ''What Race Ethnicity: Race Ethnicity None Of These'', Str ''Hispanic or Latino'',
        Str ''Not Hispanic or Latino'', Str ''Hispanic or Latino'', Null]),
      (''median_income'', [Num 52000, Num 61000, Null, Num 47000, Num 38000]),
      (''fraction_poverty'', [Num 20, Num 12, Num 9, Null, Num 11])]"

text \<open>A frame in which every subject has a race and three of five have no SES data.\<close>

definition missing_frame :: dataframe where
  "missing_frame =
     [(''race'', [Str ''White'', Str ''Asian'', Str ''White'', Str ''White'', Str ''Asian'']),
      (''median_income'', [Null, Null, Num 52000, Null, Num 61000])]"

section \<open>Properties\<close>

lemma select_map_self: "select (map P xs) xs = filter P xs"
  by (induction xs) (simp_all add: select_def)

lemma map_of_df_mask: "map_of (df_mask df m) c = map_option (select m) (map_of df c)"
  by (induction df) (auto simp: df_mask_def)

lemma getitem_df_mask:
  "getitem (df_mask df m) c = bnd (getitem df c) (\<lambda>s. Inr (select m s))"
  by (simp add: getitem_def bnd_def map_of_df_mask split: option.splits)

lemma set_unique: "set (unique xs) = set xs"
  by (induction xs) auto

lemma distinct_unique: "distinct (unique xs)"
  by (induction xs) (auto simp: set_unique)

subsection \<open>Rounding to a double\<close>

declare bit_length.simps [simp del]

lemma bit_length_bounds:
  "0 < n \<Longrightarrow> 0 < bit_length n \<and> 2 ^ (bit_length n - 1) \<le> n \<and> n < 2 ^ bit_length n"
proof (induction n rule: bit_length.induct)
  case (1 n)
  show ?case
  proof (cases "n div 2 = 0")
    case True
    with "1.prems" have "n = 1" by (simp add: div_eq_0_iff) 
    then show ?thesis
      by (simp add: bit_length.simps [of "Suc 0"] bit_length.simps [of 0])
  next
    case False
    with "1.IH" "1.prems" have ih: "0 < bit_length (n div 2)"
      "2 ^ (bit_length (n div 2) - 1) \<le> n div 2" "n div 2 < 2 ^ bit_length (n div 2)"
      by simp_all
    have b: "bit_length n = Suc (bit_length (n div 2))"
      using "1.prems" by (simp add: bit_length.simps [of n])
    from ih(1) have p: "(2::nat) ^ bit_length (n div 2) = 2 * 2 ^ (bit_length (n div 2) - 1)"
      by (cases "bit_length (n div 2)") simp_all
    from ih(2) p have "2 ^ bit_length (n div 2) \<le> n" by linarith
    moreover from ih(3) have "n < 2 * 2 ^ bit_length (n div 2)" by linarith
    ultimately show ?thesis by (simp add: b)
  qed
qed


lemma round_half_even_of_int [simp]: "round_half_even (of_int z) = z"
  by (simp add: round_half_even_def)


lemma pow2_le_of_nat: "2 ^ j \<le> (n::nat) \<Longrightarrow> (2::rat) ^ j \<le> of_nat n"
proof -
  assume "2 ^ j \<le> n"
  then have "(of_nat (2 ^ j) :: rat) \<le> of_nat n" by (simp only: of_nat_le_iff)
  then show ?thesis by simp
qed

lemma of_nat_less_pow2: "(n::nat) < 2 ^ j \<Longrightarrow> of_nat n + 1 \<le> (2::rat) ^ j"
proof -
  assume "n < 2 ^ j"
  then have "Suc n \<le> 2 ^ j" by simp
  then have "(of_nat (Suc n) :: rat) \<le> of_nat (2 ^ j)" by (simp only: of_nat_le_iff)
  then show ?thesis by simp
qed

lemma powi2_less_imp: "(2::rat) powi a < 2 powi b \<Longrightarrow> a < b"
proof (rule ccontr)
  assume l: "(2::rat) powi a < 2 powi b" and "\<not> a < b"
  then have "b \<le> a" by simp
  then have "(2::rat) powi b \<le> 2 powi a" by (rule power_int_increasing) simp
  with l show False by simp
qed

lemma exponent_bounds:
  assumes "0 < q"
  shows "2 powi (exponent q) \<le> q \<and> q < 2 powi (exponent q + 1)"
proof (cases "1 \<le> q")
  case True
  define m where "m = nat \<lfloor>q\<rfloor>"
  from True have m: "0 < m" "of_nat m \<le> q" "q < of_nat m + 1"
    unfolding m_def by (simp_all, linarith+)
  from bit_length_bounds [OF m(1)] have b: "0 < bit_length m"
    "2 ^ (bit_length m - 1) \<le> m" "m < 2 ^ bit_length m" by simp_all
  have e: "exponent q = int (bit_length m - 1)"
    using True b(1) by (simp add: exponent_def m_def)
  have e1: "exponent q + 1 = int (bit_length m)"
    using b(1) by (simp add: e)
  have "(2::rat) ^ (bit_length m - 1) \<le> of_nat m"
    using b(2) by (rule pow2_le_of_nat)
  moreover have "of_nat m + 1 \<le> (2::rat) ^ bit_length m"
    using b(3) by (rule of_nat_less_pow2)
  ultimately show ?thesis
    using m unfolding e1 unfolding e by (simp only: power_int_of_nat) linarith
next
  case False
  with assms have q: "0 < q" "q < 1" by simp_all
  define m where "m = nat \<lfloor>1 / q\<rfloor>"
  from q have "1 < 1 / q" by simp
  then have m: "0 < m" "of_nat m \<le> 1 / q" "1 / q < of_nat m + 1"
    unfolding m_def by (simp_all, linarith+)
  from bit_length_bounds [OF m(1)] have b: "0 < bit_length m"
    "2 ^ (bit_length m - 1) \<le> m" "m < 2 ^ bit_length m" by simp_all
  define k where "k = bit_length m - 1"
  have k1: "bit_length m = Suc k" using b(1) by (simp add: k_def)
  have "(2::rat) ^ k \<le> of_nat m"
    using b(2) unfolding k_def by (rule pow2_le_of_nat)
  with m(2) have lo: "(2::rat) ^ k \<le> 1 / q" by linarith
  have "of_nat m + 1 \<le> (2::rat) ^ Suc k"
    using b(3) unfolding k1 by (rule of_nat_less_pow2)
  with m(3) have hi: "1 / q < (2::rat) ^ Suc k" by linarith
  from lo q have lo': "q \<le> 1 / 2 ^ k"
    by (simp add: field_simps)
  from hi q have hi': "1 / 2 ^ Suc k < q"
    by (simp add: field_simps)
  have pk: "(2::rat) powi (- int k) = 1 / 2 ^ k"
    by (simp add: power_int_minus_divide)
  have "(2::rat) powi (- int (Suc k)) = 1 / 2 ^ Suc k"
    by (simp only: power_int_minus_divide power_int_of_nat)
  moreover have "- int k - 1 = - int (Suc k)" by simp
  ultimately have pk1: "(2::rat) powi (- int k - 1) = 1 / 2 ^ Suc k"
    by (simp only:)
  have "(2::rat) powi (- int k + 1) = 2 powi (- int k) * 2 powi 1"
    by (rule power_int_add) simp
  then have pk0: "(2::rat) powi (- int k + 1) = 2 / 2 ^ k"
    by (simp only: pk) simp
  have ek: "int (bit_length m) - 1 = int k" by (simp add: k1)
  have ex: "exponent q = (if q = 2 powi (- int k) then - int k else - int k - 1)"
    unfolding exponent_def Let_def m_def [symmetric] ek using False by (simp only: if_False)
  show ?thesis
  proof (cases "q = 2 powi (- int k)")
    case True
    with ex have e: "exponent q = - int k"
      by metis
    have a: "(2::rat) powi (exponent q) = q"
      unfolding e using True by simp
    have "(2::rat) powi (exponent q + 1) = 2 / 2 ^ k"
      unfolding e by (rule pk0)
    also have "\<dots> = 2 * q" using True pk by simp
    finally show ?thesis using a q by linarith
  next
    case neq: False
    with ex have "exponent q = - int k - 1"
      by metis
    moreover from neq lo' have "q < 1 / 2 ^ k" by (simp add: pk)
    moreover have "- int k - 1 + 1 = - int k" by simp
    ultimately show ?thesis using hi' by (simp only: pk1 pk) simp
  qed
qed






lemma round_double_pos:
  assumes "0 < q"
  shows "round_double q = of_int (round_half_even (q / 2 powi (exponent q - 52))) * 2 powi (exponent q - 52)"
  using assms by (simp add: round_double_def Let_def)




lemma round_double_of_nat:
  assumes "n < 2 ^ 53"
  shows "round_double (of_nat n) = of_nat n"
proof (cases "n = 0")
  case True
  then show ?thesis by (simp add: round_double_def)
next
  case False
  then have q: "0 < (of_nat n :: rat)" by simp
  let ?e = "exponent (of_nat n)"
  from exponent_bounds [OF q] have b: "2 powi ?e \<le> (of_nat n :: rat)" "(of_nat n :: rat) < 2 powi (?e + 1)"
    by simp_all
  from assms have "(of_nat n :: rat) < of_nat (2 ^ 53)" by (simp only: of_nat_less_iff)
  then have "(of_nat n :: rat) < 2 powi 53" by simp
  with b(1) have "(2::rat) powi ?e < 2 powi 53" by linarith
  then have hi: "?e < 53" by (rule powi2_less_imp)
  from False have "(1::rat) \<le> of_nat n" by simp
  with b(2) have "(2::rat) powi 0 < 2 powi (?e + 1)" by simp
  then have lo: "0 < ?e + 1" by (rule powi2_less_imp)
  define j where "j = nat (52 - ?e)"
  have j: "?e - 52 = - int j" using hi lo by (simp add: j_def)
  have u: "(2::rat) powi (?e - 52) = 1 / 2 ^ j"
    unfolding j by (simp add: power_int_minus_divide)
  have "of_nat n / (2::rat) powi (?e - 52) = of_int (int n * 2 ^ j)"
    unfolding u by simp
  then have "round_half_even (of_nat n / 2 powi (?e - 52)) = int n * 2 ^ j"
    by (simp only: round_half_even_of_int)
  then show ?thesis
    unfolding round_double_pos [OF q] u by simp
qed

lemma round_double_0 [simp]: "round_double 0 = 0"
  by (simp add: round_double_def)

lemma round_double_1 [simp]: "round_double 1 = 1"
  using round_double_of_nat [of 1] by simp

lemma round_double_numeral:
  "(numeral k :: nat) < 2 ^ 53 \<Longrightarrow> round_double (numeral k) = numeral k"
  using round_double_of_nat [of "numeral k"] by simp


subsection \<open>Outer joins and the size of the cohort\<close>

lemma sql_eq_simps [simp]:
  "sql_eq None b = False" "sql_eq a None = False" "sql_eq (Some x) (Some y) = (x = y)"
  by (auto simp: sql_eq_def split: option.splits)

lemma filter_key_le1: "distinct (map f rs) \<Longrightarrow> length (filter (\<lambda>r. f r = k) rs) \<le> Suc 0"
proof (induction rs)
  case Nil
  then show ?case by simp
next
  case (Cons r rs)
  show ?case
  proof (cases "f r = k")
    case True
    with Cons.prems have "filter (\<lambda>r. f r = k) rs = []"
      by (auto simp: filter_empty_conv image_iff)
    with True show ?thesis by simp
  next
    case False
    with Cons show ?thesis by simp
  qed
qed

lemma filter_sql_key_le1:
  "distinct (map f rs) \<Longrightarrow> length (filter (\<lambda>r. sql_eq k (Some (f r))) rs) \<le> Suc 0"
proof (cases k)
  case None
  then show ?thesis by simp
next
  case (Some x)
  assume "distinct (map f rs)"
  from filter_key_le1 [OF this, of x] Some show ?thesis
    by (simp add: eq_commute)
qed

lemma filter_sql_optkey_le1:
  assumes "distinct (filter (\<lambda>k. k \<noteq> None) (map f rs))"
  shows "length (filter (\<lambda>r. sql_eq k (f r)) rs) \<le> Suc 0"
proof (cases k)
  case None
  then show ?thesis by simp
next
  case (Some x)
  have eq: "filter (\<lambda>r. sql_eq k (f r)) rs
              = filter (\<lambda>r. f r = Some x) (filter (\<lambda>r. f r \<noteq> None) rs)"
    using Some by (induction rs) (auto simp: sql_eq_def split: option.splits)
  have "distinct (map f (filter (\<lambda>r. f r \<noteq> None) rs))"
    using assms by (simp add: filter_map comp_def)
  from filter_key_le1 [OF this, of "Some x"] eq show ?thesis by simp
qed

text \<open>A left join whose right side matches each left row at most once returns the left rows.\<close>

lemma left_join_map_fst:
  "\<forall>l \<in> set ls. length (filter (cond l) rs) \<le> Suc 0 \<Longrightarrow> map fst (left_join cond ls rs) = ls"
proof (induction ls)
  case Nil
  then show ?case by (simp add: left_join_def)
next
  case (Cons l ls)
  then have "length (filter (cond l) rs) \<le> Suc 0" by simp
  then have "map fst (case filter (cond l) rs of [] \<Rightarrow> [(l, None)]
                        | m # ms \<Rightarrow> map (\<lambda>r. (l, Some r)) (m # ms)) = [l]"
    by (cases "filter (cond l) rs") auto
  with Cons show ?case by (simp add: left_join_def)
qed

lemma join_sex_fst: "unique_keyed ds \<Longrightarrow> map fst (join_sex ds) = person ds"
  unfolding join_sex_def
  by (rule left_join_map_fst) (simp add: unique_keyed_def filter_sql_key_le1)

lemma join_race_fst: "unique_keyed ds \<Longrightarrow> map fst (join_race ds) = join_sex ds"
  unfolding join_race_def
  by (rule left_join_map_fst) (auto simp: unique_keyed_def filter_sql_key_le1)

lemma join_eth_fst: "unique_keyed ds \<Longrightarrow> map fst (join_eth ds) = join_race ds"
  unfolding join_eth_def
  by (rule left_join_map_fst) (auto simp: unique_keyed_def filter_sql_key_le1)

lemma obs_le1:
  assumes "distinct (map obs_person_id
       (filter (\<lambda>obs. observation_source_concept_id obs = Some 1585250) os))"
  shows "length (filter (\<lambda>obs. pid = obs_person_id obs \<and>
                  sql_eq (observation_source_concept_id obs) (Some 1585250)) os) \<le> Suc 0"
proof -
  have eq: "filter (\<lambda>obs. pid = obs_person_id obs \<and>
                  sql_eq (observation_source_concept_id obs) (Some 1585250)) os
     = filter (\<lambda>obs. obs_person_id obs = pid)
         (filter (\<lambda>obs. observation_source_concept_id obs = Some 1585250) os)"
    by (induction os) (auto simp: sql_eq_def split: option.splits)
  from filter_key_le1 [OF assms, of pid] eq show ?thesis by simp
qed

lemma join_obs_fst: "unique_keyed ds \<Longrightarrow> map fst (join_obs ds) = join_eth ds"
  unfolding join_obs_def
  by (rule left_join_map_fst) (auto simp: unique_keyed_def obs_le1)

lemma ses_le1:
  assumes "distinct (filter (\<lambda>k. k \<noteq> None) (map zip3_as_string zs))"
  shows "length (filter (\<lambda>ses. case obs of None \<Rightarrow> False
                   | Some ob \<Rightarrow> sql_eq (value_as_string ob) (zip3_as_string ses)) zs) \<le> Suc 0"
proof (cases obs)
  case None
  then show ?thesis by simp
next
  case (Some ob)
  with filter_sql_optkey_le1 [OF assms, of "value_as_string ob"] show ?thesis by simp
qed

lemma join_ses_fst:
  assumes "unique_keyed ds"
  shows "map fst (join_ses ds) = join_obs ds"
proof -
  from assms have "distinct (filter (\<lambda>k. k \<noteq> None) (map zip3_as_string (zip3_ses_map ds)))"
    unfolding unique_keyed_def by blast
  note le = ses_le1 [OF this]
  show ?thesis
    unfolding join_ses_def
    by (rule left_join_map_fst) (simp add: case_prod_beta le)
qed

lemma nrows_combined: "nrows (combined_frame ds) = length (join_ses ds)"
  by (simp add: combined_frame_def nrows_def combined_rows_def Let_def)

lemma nrows_demographics: "nrows (demographics_frame ds) = length (join_eth ds)"
  by (simp add: demographics_frame_def nrows_def demographics_rows_def Let_def)

lemma length_via_fst: "map fst xs = ys \<Longrightarrow> length xs = length ys"
  by (metis length_map)

text \<open>
  C1. On a dataset whose lookups are unique-keyed on their join keys, the combined query
  returns as many rows as the demographics-only query, and its rows are the subjects of the
  person table, each once and in order: the outer joins neither duplicate nor drop a subject.
\<close>

theorem outer_joins_keep_cohort_size:
  assumes "unique_keyed ds"
  shows "nrows (combined_frame ds) = nrows (demographics_frame ds) \<and>
         map s_person_id (combined_rows ds) = map person_id (person ds)"
proof -
  note u = assms
  have a: "map fst (join_ses ds) = join_obs ds" and b: "map fst (join_obs ds) = join_eth ds"
    and c: "map fst (join_eth ds) = join_race ds" and d: "map fst (join_race ds) = join_sex ds"
    and e: "map fst (join_sex ds) = person ds"
    using u by (rule join_ses_fst join_obs_fst join_eth_fst join_race_fst join_sex_fst)+
  have "length (join_ses ds) = length (join_eth ds)"
    using length_via_fst [OF a] length_via_fst [OF b] by simp
  then have n: "nrows (combined_frame ds) = nrows (demographics_frame ds)"
    by (simp add: nrows_combined nrows_demographics)
  have "map s_person_id (combined_rows ds)
          = map person_id (map fst (map fst (map fst (map fst (map fst (join_ses ds))))))"
    by (simp add: combined_rows_def select_combined_def comp_def case_prod_beta)
  also have "\<dots> = map person_id (person ds)"
    by (simp only: a b c d e)
  finally show ?thesis using n by simp
qed

lemma unique_keyed_cohort: "unique_keyed cohort"
  by (simp add: unique_keyed_def cohort_def)

lemma combined_frame_cohort:
  "combined_frame cohort =
     [(''person_id'', [Num 1, Num 2, Num 3]),
      (''age'', [Num 45, Num 50, Null]),
      (''sex_at_birth'', [Str ''Female'', Null, Str ''Female'']),
      (''race'', [Str ''White'', Null, Str ''Asian'']),
      (''ethnicity'',
       [Str ''Not Hispanic or Latino'',
        Str ''What Race Ethnicity: Race Ethnicity None Of These'',
        Str ''Not Hispanic or Latino'']),
      (''median_income'', [Num 52000, Null, Null]),
      (''fraction_poverty'', [Num 12, Null, Null]),
      (''fraction_no_health_ins'', [Num 8, Null, Null])]"
  by (simp add: combined_frame_def combined_rows_def select_combined_def join_ses_def
      join_obs_def join_eth_def join_race_def join_sex_def left_join_def cohort_def
      age_of_def name_of_def cell_int_def cell_str_def cell_num_def)

theorem outer_joins_keep_cohort_size_witness:
  "unique_keyed cohort \<and>
   nrows (combined_frame cohort) = nrows (demographics_frame cohort) \<and>
   map s_person_id (combined_rows cohort) = map person_id (person cohort) \<and>
   nrows (combined_frame cohort) = 3"
  using outer_joins_keep_cohort_size [OF unique_keyed_cohort] unique_keyed_cohort
  by (simp add: combined_frame_cohort nrows_def)

subsection \<open>Left joins keep the subjects without a match\<close>

lemma left_join_keeps_left: "fst ` set (left_join cond ls rs) = set ls"
proof (induction ls)
  case Nil
  then show ?case by (simp add: left_join_def)
next
  case (Cons l ls)
  have "fst ` set (case filter (cond l) rs of [] \<Rightarrow> [(l, None)]
                        | m # ms \<Rightarrow> map (\<lambda>r. (l, Some r)) (m # ms)) = {l}"
    by (cases "filter (cond l) rs") auto
  with Cons show ?case by (simp add: left_join_def image_Un)
qed

lemma left_join_unmatched:
  assumes "(l, r) \<in> set (left_join cond ls rs)" and "\<forall>x \<in> set rs. \<not> cond l x"
  shows "r = None"
proof -
  from assms(2) have "filter (cond l) rs = []" by (simp add: filter_empty_conv)
  moreover from assms(1) obtain l' where "l' \<in> set ls"
    and "(l, r) \<in> set (case filter (cond l') rs of [] \<Rightarrow> [(l', None)]
                        | m # ms \<Rightarrow> map (\<lambda>r. (l', Some r)) (m # ms))"
    by (auto simp: left_join_def)
  moreover then have "l' = l" by (auto split: list.splits)
  ultimately show ?thesis by simp
qed

lemma left_join_fst_in: "(l, r) \<in> set (left_join cond ls rs) \<Longrightarrow> l \<in> set ls"
  using left_join_keeps_left [of cond ls rs] by force

lemma person_ids_combined: "s_person_id ` set (combined_rows ds) = person_id ` set (person ds)"
proof -
  have "s_person_id ` set (combined_rows ds)
          = (person_id \<circ> fst \<circ> fst \<circ> fst \<circ> fst \<circ> fst) ` set (join_ses ds)"
    by (simp add: combined_rows_def select_combined_def image_image case_prod_beta)
  also have "\<dots> = person_id ` fst ` fst ` fst ` fst ` fst ` set (join_ses ds)"
    by (simp add: image_image)
  also have "\<dots> = person_id ` set (person ds)"
    by (simp only: join_ses_def join_obs_def join_eth_def join_race_def join_sex_def
        left_join_keeps_left)
  finally show ?thesis .
qed

lemma left_join_has_row: "l \<in> set ls \<Longrightarrow> \<exists>r. (l, r) \<in> set (left_join cond ls rs)"
  using left_join_keeps_left [of cond ls rs] by force

lemma demographics_keep_unmatched:
  assumes p: "p \<in> set (person ds)"
  shows "\<exists>s r e. (age_of p, s, r, e) \<in> set (demographics_rows ds) \<and>
     ((\<forall>c \<in> set (concept ds). \<not> sql_eq (sex_at_birth_concept_id p) (Some (concept_id c)))
        \<longrightarrow> s = None) \<and>
     ((\<forall>c \<in> set (concept ds). \<not> sql_eq (race_concept_id p) (Some (concept_id c)))
        \<longrightarrow> r = None) \<and>
     ((\<forall>c \<in> set (concept ds). \<not> sql_eq (ethnicity_concept_id p) (Some (concept_id c)))
        \<longrightarrow> e = None)"
proof -
  from p have "\<exists>c. (p, c) \<in> set (join_sex ds)"
    unfolding join_sex_def by (rule left_join_has_row)
  then obtain c_sex where js: "(p, c_sex) \<in> set (join_sex ds)" ..
  then have "\<exists>c. ((p, c_sex), c) \<in> set (join_race ds)"
    unfolding join_race_def by (rule left_join_has_row)
  then obtain c_race where jr: "((p, c_sex), c_race) \<in> set (join_race ds)" ..
  then have "\<exists>c. (((p, c_sex), c_race), c) \<in> set (join_eth ds)"
    unfolding join_eth_def by (rule left_join_has_row)
  then obtain c_eth where je: "(((p, c_sex), c_race), c_eth) \<in> set (join_eth ds)" ..
  have row: "(age_of p, name_of c_sex, name_of c_race, name_of c_eth) \<in> set (demographics_rows ds)"
    using je by (force simp: demographics_rows_def)
  have a: "name_of c_sex = None"
    if "\<forall>c \<in> set (concept ds). \<not> sql_eq (sex_at_birth_concept_id p) (Some (concept_id c))"
  proof -
    from js that have "c_sex = None"
      unfolding join_sex_def by (auto dest: left_join_unmatched)
    then show ?thesis by (simp add: name_of_def)
  qed
  have b: "name_of c_race = None"
    if "\<forall>c \<in> set (concept ds). \<not> sql_eq (race_concept_id p) (Some (concept_id c))"
  proof -
    from jr that have "c_race = None"
      unfolding join_race_def by (auto dest: left_join_unmatched)
    then show ?thesis by (simp add: name_of_def)
  qed
  have c: "name_of c_eth = None"
    if "\<forall>c \<in> set (concept ds). \<not> sql_eq (ethnicity_concept_id p) (Some (concept_id c))"
  proof -
    from je that have "c_eth = None"
      unfolding join_eth_def by (auto dest: left_join_unmatched)
    then show ?thesis by (simp add: name_of_def)
  qed
  from row a b c show ?thesis by blast
qed

lemma length_left_join: "length ls \<le> length (left_join cond ls rs)"
proof (induction ls)
  case Nil
  then show ?case by (simp add: left_join_def)
next
  case (Cons l ls)
  have "1 \<le> length (case filter (cond l) rs of [] \<Rightarrow> [(l, None)]
                        | m # ms \<Rightarrow> map (\<lambda>r. (l, Some r)) (m # ms))"
    by (cases "filter (cond l) rs") simp_all
  with Cons show ?case by (simp add: left_join_def)
qed

lemma length_join_eth: "length (person ds) \<le> length (join_eth ds)"
proof -
  have "length (person ds) \<le> length (join_sex ds)"
    unfolding join_sex_def by (rule length_left_join)
  also have "\<dots> \<le> length (join_race ds)"
    unfolding join_race_def by (rule length_left_join)
  also have "\<dots> \<le> length (join_eth ds)"
    unfolding join_eth_def by (rule length_left_join)
  finally show ?thesis .
qed

lemma length_demographics_rows: "length (person ds) \<le> length (demographics_rows ds)"
  using length_join_eth [of ds] by (simp add: demographics_rows_def)

lemma length_combined_rows: "length (person ds) \<le> length (combined_rows ds)"
proof -
  note length_join_eth [of ds]
  also have "length (join_eth ds) \<le> length (join_obs ds)"
    unfolding join_obs_def by (rule length_left_join)
  also have "\<dots> \<le> length (join_ses ds)"
    unfolding join_ses_def by (rule length_left_join)
  finally show ?thesis by (simp add: combined_rows_def)
qed

lemma set_inner_join:
  "set (inner_join cond ls rs) = {(l, r). l \<in> set ls \<and> r \<in> set rs \<and> cond l r}"
  by (auto simp: inner_join_def)

lemma ses_rows_set:
  "set (ses_rows ds) =
     {(median_income z, fraction_poverty z, fraction_no_health_ins z) | ob z.
        ob \<in> set (observation ds) \<and> z \<in> set (zip3_ses_map ds) \<and>
        sql_eq (value_as_string ob) (zip3_as_string z) \<and>
        sql_eq (observation_source_concept_id ob) (Some 1585250)}"
  by (auto simp: ses_rows_def set_inner_join image_iff)

lemma length_filter_inner_join:
  "length (filter (\<lambda>(l, r). Q l) (inner_join cond ls rs))
     = (\<Sum>l\<leftarrow>filter Q ls. length (filter (cond l) rs))"
  by (induction ls) (simp_all add: inner_join_def filter_map comp_def)

lemma ses_rows_length:
  "length (ses_rows ds) =
     (\<Sum>ob\<leftarrow>filter (\<lambda>ob. sql_eq (observation_source_concept_id ob) (Some 1585250))
               (observation ds).
        length (filter (\<lambda>z. sql_eq (value_as_string ob) (zip3_as_string z)) (zip3_ses_map ds)))"
  by (simp add: ses_rows_def length_filter_inner_join)

text \<open>
  C2 (as the code has it). The demographics query and the combined query use LEFT JOIN for
  every optional join. Every subject of the person table is in the output of the combined
  query, and in each of its rows a label whose code matches no concept is NULL, the
  observation is NULL when the subject has no postal-prefix observation, and the three SES
  measures are NULL when there is no observation or its prefix matches no SES entry. Every
  subject of the person table has a row in the output of the demographics query too, with
  NULL for each label whose code matches no concept. Neither query returns fewer rows than
  there are subjects. The SES query of level 1 joins the
  observations to the SES lookup with a plain \<^verbatim>\<open>JOIN\<close>: its rows are the SES measures of the
  pairs of a postal-prefix observation and an SES entry for its prefix, one row for each
  such pair, so an observation whose prefix has no SES entry gives no row.
\<close>

theorem left_joins_keep_unmatched_subjects:
  "s_person_id ` set (combined_rows ds) = person_id ` set (person ds) \<and>
   (\<forall>p c_sex c_race c_eth obs ses.
      (((((p, c_sex), c_race), c_eth), obs), ses) \<in> set (join_ses ds) \<longrightarrow>
        p \<in> set (person ds) \<and>
        ((\<forall>c \<in> set (concept ds). \<not> sql_eq (sex_at_birth_concept_id p) (Some (concept_id c)))
            \<longrightarrow> s_sex_at_birth (select_combined (((((p, c_sex), c_race), c_eth), obs), ses)) = None) \<and>
        ((\<forall>c \<in> set (concept ds). \<not> sql_eq (race_concept_id p) (Some (concept_id c)))
            \<longrightarrow> s_race (select_combined (((((p, c_sex), c_race), c_eth), obs), ses)) = None) \<and>
        ((\<forall>c \<in> set (concept ds). \<not> sql_eq (ethnicity_concept_id p) (Some (concept_id c)))
            \<longrightarrow> s_ethnicity (select_combined (((((p, c_sex), c_race), c_eth), obs), ses)) = None) \<and>
        ((\<forall>ob \<in> set (observation ds).
             \<not> (person_id p = obs_person_id ob \<and>
                sql_eq (observation_source_concept_id ob) (Some 1585250)))
            \<longrightarrow> obs = None) \<and>
        ((case obs of None \<Rightarrow> True
          | Some ob \<Rightarrow> \<forall>z \<in> set (zip3_ses_map ds).
                        \<not> sql_eq (value_as_string ob) (zip3_as_string z))
            \<longrightarrow> s_median_income (select_combined (((((p, c_sex), c_race), c_eth), obs), ses)) = None \<and>
                s_fraction_poverty (select_combined (((((p, c_sex), c_race), c_eth), obs), ses)) = None \<and>
                s_fraction_no_health_ins (select_combined (((((p, c_sex), c_race), c_eth), obs), ses)) = None)) \<and>
   (\<forall>p \<in> set (person ds).
      \<exists>s r e. (age_of p, s, r, e) \<in> set (demographics_rows ds) \<and>
        ((\<forall>c \<in> set (concept ds). \<not> sql_eq (sex_at_birth_concept_id p) (Some (concept_id c)))
           \<longrightarrow> s = None) \<and>
        ((\<forall>c \<in> set (concept ds). \<not> sql_eq (race_concept_id p) (Some (concept_id c)))
           \<longrightarrow> r = None) \<and>
        ((\<forall>c \<in> set (concept ds). \<not> sql_eq (ethnicity_concept_id p) (Some (concept_id c)))
           \<longrightarrow> e = None)) \<and>
   set (ses_rows ds) =
     {(median_income z, fraction_poverty z, fraction_no_health_ins z) | ob z.
        ob \<in> set (observation ds) \<and> z \<in> set (zip3_ses_map ds) \<and>
        sql_eq (value_as_string ob) (zip3_as_string z) \<and>
        sql_eq (observation_source_concept_id ob) (Some 1585250)} \<and>
   length (ses_rows ds) =
     (\<Sum>ob\<leftarrow>filter (\<lambda>ob. sql_eq (observation_source_concept_id ob) (Some 1585250))
               (observation ds).
        length (filter (\<lambda>z. sql_eq (value_as_string ob) (zip3_as_string z)) (zip3_ses_map ds))) \<and>
   length (person ds) \<le> length (demographics_rows ds) \<and>
   length (person ds) \<le> length (combined_rows ds)"
proof (intro conjI allI impI)
  show "s_person_id ` set (combined_rows ds) = person_id ` set (person ds)"
    by (rule person_ids_combined)
  show "length (person ds) \<le> length (demographics_rows ds)"
    by (rule length_demographics_rows)
  show "length (person ds) \<le> length (combined_rows ds)"
    by (rule length_combined_rows)
  show "\<forall>p \<in> set (person ds).
      \<exists>s r e. (age_of p, s, r, e) \<in> set (demographics_rows ds) \<and>
        ((\<forall>c \<in> set (concept ds). \<not> sql_eq (sex_at_birth_concept_id p) (Some (concept_id c)))
           \<longrightarrow> s = None) \<and>
        ((\<forall>c \<in> set (concept ds). \<not> sql_eq (race_concept_id p) (Some (concept_id c)))
           \<longrightarrow> r = None) \<and>
        ((\<forall>c \<in> set (concept ds). \<not> sql_eq (ethnicity_concept_id p) (Some (concept_id c)))
           \<longrightarrow> e = None)"
    by (intro ballI) (rule demographics_keep_unmatched)
  show "set (ses_rows ds) =
     {(median_income z, fraction_poverty z, fraction_no_health_ins z) | ob z.
        ob \<in> set (observation ds) \<and> z \<in> set (zip3_ses_map ds) \<and>
        sql_eq (value_as_string ob) (zip3_as_string z) \<and>
        sql_eq (observation_source_concept_id ob) (Some 1585250)}"
    by (rule ses_rows_set)
  show "length (ses_rows ds) =
     (\<Sum>ob\<leftarrow>filter (\<lambda>ob. sql_eq (observation_source_concept_id ob) (Some 1585250))
               (observation ds).
        length (filter (\<lambda>z. sql_eq (value_as_string ob) (zip3_as_string z)) (zip3_ses_map ds)))"
    by (rule ses_rows_length)
next
  fix p c_sex c_race c_eth obs ses
  assume j: "(((((p, c_sex), c_race), c_eth), obs), ses) \<in> set (join_ses ds)"
  then have jo: "((((p, c_sex), c_race), c_eth), obs) \<in> set (join_obs ds)"
    unfolding join_ses_def by (rule left_join_fst_in)
  then have je: "(((p, c_sex), c_race), c_eth) \<in> set (join_eth ds)"
    unfolding join_obs_def by (rule left_join_fst_in)
  then have jr: "((p, c_sex), c_race) \<in> set (join_race ds)"
    unfolding join_eth_def by (rule left_join_fst_in)
  then have js: "(p, c_sex) \<in> set (join_sex ds)"
    unfolding join_race_def by (rule left_join_fst_in)
  then show "p \<in> set (person ds)"
    unfolding join_sex_def by (rule left_join_fst_in)
  {
    assume "\<forall>c \<in> set (concept ds). \<not> sql_eq (sex_at_birth_concept_id p) (Some (concept_id c))"
    with js have "c_sex = None"
      unfolding join_sex_def by (auto dest: left_join_unmatched)
    then show "s_sex_at_birth (select_combined (((((p, c_sex), c_race), c_eth), obs), ses)) = None"
      by (simp add: select_combined_def name_of_def)
  }
  {
    assume "\<forall>c \<in> set (concept ds). \<not> sql_eq (race_concept_id p) (Some (concept_id c))"
    with jr have "c_race = None"
      unfolding join_race_def by (auto dest: left_join_unmatched)
    then show "s_race (select_combined (((((p, c_sex), c_race), c_eth), obs), ses)) = None"
      by (simp add: select_combined_def name_of_def)
  }
  {
    assume "\<forall>c \<in> set (concept ds). \<not> sql_eq (ethnicity_concept_id p) (Some (concept_id c))"
    with je have "c_eth = None"
      unfolding join_eth_def by (auto dest: left_join_unmatched)
    then show "s_ethnicity (select_combined (((((p, c_sex), c_race), c_eth), obs), ses)) = None"
      by (simp add: select_combined_def name_of_def)
  }
  {
    assume "\<forall>ob \<in> set (observation ds).
             \<not> (person_id p = obs_person_id ob \<and>
                sql_eq (observation_source_concept_id ob) (Some 1585250))"
    with jo show "obs = None"
      unfolding join_obs_def by (auto dest: left_join_unmatched)
  }
  {
    assume "case obs of None \<Rightarrow> True
          | Some ob \<Rightarrow> \<forall>z \<in> set (zip3_ses_map ds).
                        \<not> sql_eq (value_as_string ob) (zip3_as_string z)"
    then have "\<forall>z \<in> set (zip3_ses_map ds). \<not> (case obs of None \<Rightarrow> False
                   | Some ob \<Rightarrow> sql_eq (value_as_string ob) (zip3_as_string z))"
      by (auto split: option.splits)
    with j have s: "ses = None"
      unfolding join_ses_def by (auto dest: left_join_unmatched)
    then show "s_median_income (select_combined (((((p, c_sex), c_race), c_eth), obs), ses)) = None"
      and "s_fraction_poverty (select_combined (((((p, c_sex), c_race), c_eth), obs), ses)) = None"
      and "s_fraction_no_health_ins (select_combined (((((p, c_sex), c_race), c_eth), obs), ses)) = None"
      by (simp_all add: select_combined_def)
  }
qed

lemma second_subject_joined: "second_subject \<in> set (join_ses cohort)"
  by (simp add: second_subject_def join_ses_def join_obs_def join_eth_def join_race_def
      join_sex_def left_join_def cohort_def)

theorem left_joins_keep_unmatched_subjects_witness:
  "second_subject \<in> set (join_ses cohort) \<and>
   s_person_id ` set (combined_rows cohort) = person_id ` set (person cohort) \<and>
   s_sex_at_birth (select_combined second_subject) = None \<and>
   s_race (select_combined second_subject) = None \<and>
   s_median_income (select_combined second_subject) = None \<and>
   s_fraction_poverty (select_combined second_subject) = None \<and>
   s_fraction_no_health_ins (select_combined second_subject) = None \<and>
   (\<exists>e. (Some 50, None, None, e) \<in> set (demographics_rows cohort)) \<and>
   length (ses_rows cohort) = 1"
proof -
  define p where "p = \<lparr>person_id = 2, year_of_birth = Some 1975, sex_at_birth_concept_id = None,
           race_concept_id = Some 99, ethnicity_concept_id = Some 31\<rparr>"
  define ce where "ce = Some \<lparr>concept_id = 31,
              concept_name = Some ''What Race Ethnicity: Race Ethnicity None Of These''\<rparr>"
  define ob where "ob = \<lparr>obs_person_id = 2, observation_source_concept_id = Some 1585250,
             value_as_string = Some ''999''\<rparr>"
  have ss: "second_subject = (((((p, None), None), ce), Some ob), None)"
    by (simp add: second_subject_def p_def ce_def ob_def)
  have m: "(((((p, None), None), ce), Some ob), None) \<in> set (join_ses cohort)"
    using second_subject_joined by (simp only: ss)
  have h1: "\<forall>c \<in> set (concept cohort).
              \<not> sql_eq (sex_at_birth_concept_id p) (Some (concept_id c))"
    and h2: "\<forall>c \<in> set (concept cohort).
              \<not> sql_eq (race_concept_id p) (Some (concept_id c))"
    by (simp_all add: cohort_def p_def)
  have h3: "case Some ob of None \<Rightarrow> True
            | Some ob \<Rightarrow> \<forall>z \<in> set (zip3_ses_map cohort).
                          \<not> sql_eq (value_as_string ob) (zip3_as_string z)"
    by (simp add: ob_def cohort_def)
  note T = left_joins_keep_unmatched_subjects [of cohort]
  note T2 = T [THEN conjunct2, THEN conjunct1, THEN spec, THEN spec, THEN spec, THEN spec,
      THEN spec, THEN spec, THEN mp, OF m]
  have a: "s_sex_at_birth (select_combined second_subject) = None"
    using T2 [THEN conjunct2, THEN conjunct1, THEN mp, OF h1] by (simp only: ss)
  have b: "s_race (select_combined second_subject) = None"
    using T2 [THEN conjunct2, THEN conjunct2, THEN conjunct1, THEN mp, OF h2] by (simp only: ss)
  have c: "s_median_income (select_combined second_subject) = None \<and>
           s_fraction_poverty (select_combined second_subject) = None \<and>
           s_fraction_no_health_ins (select_combined second_subject) = None"
    using T2 [THEN conjunct2, THEN conjunct2, THEN conjunct2, THEN conjunct2, THEN conjunct2,
        THEN mp, OF h3] by (simp only: ss)
  have pin: "p \<in> set (person cohort)"
    by (simp add: cohort_def p_def)
  from T [THEN conjunct2, THEN conjunct2, THEN conjunct1, THEN bspec, OF pin]
  obtain s r e where row: "(age_of p, s, r, e) \<in> set (demographics_rows cohort)"
    and s: "(\<forall>c \<in> set (concept cohort).
              \<not> sql_eq (sex_at_birth_concept_id p) (Some (concept_id c))) \<longrightarrow> s = None"
    and r: "(\<forall>c \<in> set (concept cohort).
              \<not> sql_eq (race_concept_id p) (Some (concept_id c))) \<longrightarrow> r = None"
    by blast
  from s h1 have "s = None" by (rule mp)
  moreover from r h2 have "r = None" by (rule mp)
  moreover have "age_of p = Some 50" by (simp add: age_of_def p_def)
  ultimately have d: "\<exists>e. (Some 50, None, None, e) \<in> set (demographics_rows cohort)"
    using row by auto
  have "length (ses_rows cohort) = 1"
    using T [THEN conjunct2, THEN conjunct2, THEN conjunct2, THEN conjunct2, THEN conjunct1]
    by (simp add: cohort_def sql_eq_def)
  with second_subject_joined T [THEN conjunct1] a b c d show ?thesis
    by (intro conjI) simp_all
qed

text \<open>
  C2 as stated fails on the SES query of level 1, whose SES lookup join is a plain
  \<^verbatim>\<open>JOIN\<close>: the cohort has two postal-prefix observations, and the query returns one row;
  the subject whose prefix has no SES entry is dropped.
\<close>

theorem ses_query_drops_unmatched_counterexample:
  "length (filter (\<lambda>ob. observation_source_concept_id ob = Some 1585250)
             (observation cohort)) = 2 \<and>
   ses_frame cohort =
     [(''median_income'', [Num 52000]), (''fraction_poverty'', [Num 12]),
      (''fraction_no_health_ins'', [Num 8])]"
  by (simp add: ses_frame_def ses_rows_def inner_join_def cohort_def cell_num_def)

subsection \<open>The p-value text and the verdict\<close>







subsection \<open>A query that fails, and an identifier that is not set\<close>

lemma getitem_empty: "getitem empty_frame c = Inl (KeyError [c])"
  by (simp add: getitem_def empty_frame_def)

lemma analyses_l2_empty: "analyses_l2 L empty_frame = Inl (KeyError [''race''])"
  by (simp add: analyses_l2_def plot1_def plot_data_def getitem_empty bnd_def)

lemma demographics_plots_empty: "demographics_plots empty_frame = Inl (KeyError [''age''])"
  by (simp add: demographics_plots_def dropna_def empty_frame_def bnd_def)

text \<open>
  C7 (what the code does). When the query raises, the script puts \<^verbatim>\<open>pd.DataFrame()\<close> in place
  of the result and goes on; that frame has no column, so the first statement that reads the
  data raises \<^verbatim>\<open>KeyError\<close> (\<^verbatim>\<open>df_analysis['race']\<close> in level 2, \<^verbatim>\<open>dropna(subset=['age'])\<close> in
  level 1) and the script stops there: no analysis is run, and level 1 never sends its SES
  query.
\<close>

theorem failed_query_aborts_run:
  "(client (sql_query_l2 cdr) = Inl e \<longrightarrow>
      run_level2 cdr client L =
        \<lparr>printed = banner cdr, requests = [sql_query_l2 cdr],
         outcome = Inl (KeyError [''race''])\<rparr>) \<and>
   (client (sql_query_l1 cdr) = Inl e \<longrightarrow>
      run_level1 cdr client =
        \<lparr>printed = banner cdr, requests = [sql_query_l1 cdr],
         outcome = Inl (KeyError [''age''])\<rparr>)"
  by (simp add: run_level2_def run_level1_def run_query_def Let_def analyses_l2_empty
      demographics_plots_empty)

theorem failed_query_aborts_run_witness:
  "refusing_engine (sql_query_l2 (Some ''proj.cdr'')) = Inl (QueryError ''Not found'') \<and>
   outcome (run_level2 (Some ''proj.cdr'') refusing_engine (fixed_lib (Fl 0))) =
     Inl (KeyError [''race'']) \<and>
   outcome (run_level1 (Some ''proj.cdr'') refusing_engine) = Inl (KeyError [''age'']) \<and>
   requests (run_level1 (Some ''proj.cdr'') refusing_engine) =
     [sql_query_l1 (Some ''proj.cdr'')]"
proof -
  have a: "refusing_engine (sql_query_l2 (Some ''proj.cdr'')) = Inl (QueryError ''Not found'')"
    and b: "refusing_engine (sql_query_l1 (Some ''proj.cdr'')) = Inl (QueryError ''Not found'')"
    by (simp_all add: refusing_engine_def)
  from failed_query_aborts_run
         [of refusing_engine "Some ''proj.cdr''" "QueryError ''Not found''" "fixed_lib (Fl 0)"]
    a b show ?thesis by simp
qed

text \<open>
  C5 (as the code has it). Whatever the identifier is, set or not, each script builds its
  query text from it and sends it: level 2 sends exactly one request, level 1 sends its
  demographics query first. When the identifier is not set (or empty) the script prints the
  line \<^verbatim>\<open>Error: WORKSPACE_CDR environment variable not set.\<close> and the query text names the
  tables of a dataset called \<^verbatim>\<open>None\<close>.
\<close>

theorem unset_identifier_still_queries:
  "requests (run_level2 cdr client L) = [sql_query_l2 cdr] \<and>
   printed (run_level2 cdr client L) = banner cdr \<and>
   hd (requests (run_level1 cdr client)) = sql_query_l1 cdr \<and>
   printed (run_level1 cdr client) = banner cdr \<and>
   (\<not> truthy cdr \<longrightarrow> banner cdr = ''Error: WORKSPACE_CDR environment variable not set.'') \<and>
   ''    `None.person` p'' \<in> set (sql_query_l2_lines None) \<and>
   ''    `None.person` p'' \<in> set (sql_query_l1_lines None)"
  by (simp add: run_level2_def run_level1_def Let_def banner_def sql_query_l2_lines_def
      sql_query_l1_lines_def fmt_id_def split: sum.splits)

theorem unset_identifier_still_queries_witness:
  "\<not> truthy None \<and> \<not> truthy (Some []) \<and>
   banner None = ''Error: WORKSPACE_CDR environment variable not set.'' \<and>
   banner (Some []) = ''Error: WORKSPACE_CDR environment variable not set.'' \<and>
   requests (run_level2 None (warehouse ''proj.cdr'' cohort) (fixed_lib (Fl 0))) =
     [sql_query_l2 None]"
proof -
  have h: "\<not> truthy None" "\<not> truthy (Some [])"
    by (simp_all add: truthy_def)
  from unset_identifier_still_queries [of None "warehouse ''proj.cdr'' cohort" "fixed_lib (Fl 0)"]
    unset_identifier_still_queries [of "Some []" "warehouse ''proj.cdr'' cohort" "fixed_lib (Fl 0)"]
    h show ?thesis by simp
qed

text \<open>
  C5 as stated fails: with the identifier not set, level 2 builds the query text and sends
  it; the engine refuses it, the empty frame takes the place of the result, and the script
  ends on the \<^verbatim>\<open>KeyError\<close> of the first analysis. Nothing signals a configuration error.
\<close>

theorem unset_identifier_counterexample:
  "requests (run_level2 None refusing_engine (fixed_lib (Fl 0))) = [sql_query_l2 None] \<and>
   outcome (run_level2 None refusing_engine (fixed_lib (Fl 0))) = Inl (KeyError [''race'']) \<and>
   requests (run_level1 None refusing_engine) = [sql_query_l1 None] \<and>
   outcome (run_level1 None refusing_engine) = Inl (KeyError [''age''])"
  by (simp add: run_level2_def run_level1_def Let_def run_query_def refusing_engine_def
      analyses_l2_empty demographics_plots_empty)

subsection \<open>A comparison with fewer than two groups\<close>

lemma bnd_simps [simp]: "bnd (Inl e) f = Inl e" "bnd (Inr x) f = f x"
  by (simp_all add: bnd_def)

lemma bnd_Inr_iff: "bnd m f = Inr y \<longleftrightarrow> (\<exists>x. m = Inr x \<and> f x = Inr y)"
  by (cases m) simp_all

lemma getitem_Inr_iff: "getitem df c = Inr s \<longleftrightarrow> map_of df c = Some s"
  by (simp add: getitem_def split: option.splits)

lemma dropna_Inr:
  assumes "dropna df cols = Inr t"
  obtains m where "t = df_mask df m" and "\<forall>c \<in> set cols. map_of df c \<noteq> None"
proof -
  from assms have e: "filter (\<lambda>c. map_of df c = None) cols = []"
    by (auto simp: dropna_def split: list.splits)
  then have "\<forall>c \<in> set cols. map_of df c \<noteq> None"
    by (simp add: filter_empty_conv)
  moreover from assms e have "\<exists>m. t = df_mask df m"
    by (auto simp: dropna_def)
  ultimately show ?thesis using that by blast
qed

lemma collect_map_Inr: "collect (map (\<lambda>g. Inr (f g)) gs) = Inr (map f gs)"
  by (induction gs) simp_all

lemma income_by_group_Inr:
  "getitem td ''median_income'' = Inr income \<Longrightarrow> getitem td ''race'' = Inr race \<Longrightarrow>
     income_by_group td gs = Inr (map (\<lambda>g. select (eq_mask race g) income) gs)"
  by (simp add: income_by_group_def collect_map_Inr)

lemma poverty_by_group_Inr:
  "getitem td ''fraction_poverty'' = Inr poverty \<Longrightarrow> getitem td ''ethnicity'' = Inr eth \<Longrightarrow>
     poverty_by_group td gs = Inr (map (\<lambda>g. select (eq_mask eth g) poverty) gs)"
  by (simp add: poverty_by_group_def collect_map_Inr)

lemma test_data_columns:
  assumes "test_data df = Inr td"
  obtains race income where "map_of df ''race'' \<noteq> None"
    and "getitem td ''race'' = Inr race" and "getitem td ''median_income'' = Inr income"
proof -
  from assms obtain t r where d: "dropna df [''race'', ''median_income''] = Inr t"
    and r: "getitem t ''race'' = Inr r"
    and td: "td = df_mask t (ne_mask r (Str ''No matching concept''))"
    by (auto simp: test_data_def bnd_Inr_iff)
  from d obtain m where t: "t = df_mask df m"
    and c: "map_of df ''race'' \<noteq> None" "map_of df ''median_income'' \<noteq> None"
    by (rule dropna_Inr) simp
  from c obtain r0 i0 where "map_of df ''race'' = Some r0" "map_of df ''median_income'' = Some i0"
    by auto
  then have "\<exists>race. getitem td ''race'' = Inr race" "\<exists>income. getitem td ''median_income'' = Inr income"
    by (simp_all add: td t getitem_Inr_iff map_of_df_mask)
  with c that show ?thesis by blast
qed

lemma kruskal_few: "length samples < 2 \<Longrightarrow>
   kruskal L samples = Inl (ValueError ''Need at least two groups in stats.kruskal()'')"
  by (simp add: kruskal_def)

text \<open>
  C6 (as the code has it). The comparison has no guard on the number of groups: when fewer
  than two distinct groups remain, the samples are still passed to \<^verbatim>\<open>stats.kruskal\<close>, which
  raises \<^verbatim>\<open>ValueError\<close>; nothing catches it, so the comparison ends the script. This holds for
  the income-by-race comparison and for the poverty-by-ethnicity comparison.
\<close>

theorem fewer_than_two_groups_raises:
  "(test_data df = Inr td \<and> groups td = Inr gs \<and> length gs < 2 \<longrightarrow>
      plot1 L df = Inl (ValueError ''Need at least two groups in stats.kruskal()'')) \<and>
   (test_data_eth df = Inr td' \<and> groups_eth td' = Inr gs' \<and> length gs' < 2 \<longrightarrow>
      plot2 L df = Inl (ValueError ''Need at least two groups in stats.kruskal()''))"
proof (intro conjI impI; elim conjE)
  assume td: "test_data df = Inr td" and gs: "groups td = Inr gs" and n: "length gs < 2"
  from td obtain race income where c: "map_of df ''race'' \<noteq> None"
    and r: "getitem td ''race'' = Inr race" and i: "getitem td ''median_income'' = Inr income"
    by (rule test_data_columns)
  from c obtain pd where pd: "plot_data df = Inr pd"
    by (auto simp: plot_data_def getitem_def)
  from n have "length (map (\<lambda>g. select (eq_mask race g) income) gs) < 2" by simp
  then show "plot1 L df = Inl (ValueError ''Need at least two groups in stats.kruskal()'')"
    by (simp add: plot1_def pd td gs income_by_group_Inr [OF i r] kruskal_few)
next
  assume td: "test_data_eth df = Inr td'" and gs: "groups_eth td' = Inr gs'"
    and n: "length gs' < 2"
  from td obtain m where t: "td' = df_mask df m"
    and c: "map_of df ''ethnicity'' \<noteq> None" "map_of df ''fraction_poverty'' \<noteq> None"
    unfolding test_data_eth_def by (rule dropna_Inr) simp
  from c obtain e0 p0 where "map_of df ''ethnicity'' = Some e0" "map_of df ''fraction_poverty'' = Some p0"
    by auto
  then obtain eth poverty where e: "getitem td' ''ethnicity'' = Inr eth"
    and p: "getitem td' ''fraction_poverty'' = Inr poverty"
    by (simp add: t getitem_Inr_iff map_of_df_mask)
  from n have "length (map (\<lambda>g. select (eq_mask eth g) poverty) gs') < 2" by simp
  then show "plot2 L df = Inl (ValueError ''Need at least two groups in stats.kruskal()'')"
    by (simp add: plot2_def td gs poverty_by_group_Inr [OF p e] kruskal_few)
qed

lemma test_data_cohort:
  "test_data (combined_frame cohort) =
     Inr [(''person_id'', [Num 1]), (''age'', [Num 45]),
          (''sex_at_birth'', [Str ''Female'']), (''race'', [Str ''White'']),
          (''ethnicity'', [Str ''Not Hispanic or Latino'']),
          (''median_income'', [Num 52000]), (''fraction_poverty'', [Num 12]),
          (''fraction_no_health_ins'', [Num 8])]"
  by (simp add: combined_frame_cohort test_data_def getitem_def dropna_def df_mask_def
      select_def ne_mask_def notna_def and_masks_def nrows_def)

lemma test_data_eth_cohort:
  "test_data_eth (combined_frame cohort) =
     Inr [(''person_id'', [Num 1]), (''age'', [Num 45]),
          (''sex_at_birth'', [Str ''Female'']), (''race'', [Str ''White'']),
          (''ethnicity'', [Str ''Not Hispanic or Latino'']),
          (''median_income'', [Num 52000]), (''fraction_poverty'', [Num 12]),
          (''fraction_no_health_ins'', [Num 8])]"
  by (simp add: combined_frame_cohort test_data_eth_def getitem_def dropna_def df_mask_def
      select_def notna_def and_masks_def nrows_def)

theorem fewer_than_two_groups_raises_witness:
  "bnd (test_data (combined_frame cohort)) groups = Inr [Str ''White''] \<and>
   bnd (test_data_eth (combined_frame cohort)) groups_eth = Inr [Str ''Not Hispanic or Latino''] \<and>
   plot1 (fixed_lib (Fl 0)) (combined_frame cohort) =
     Inl (ValueError ''Need at least two groups in stats.kruskal()'') \<and>
   plot2 (fixed_lib (Fl 0)) (combined_frame cohort) =
     Inl (ValueError ''Need at least two groups in stats.kruskal()'')"
proof -
  let ?td = "[(''person_id'', [Num 1]), (''age'', [Num 45]),
          (''sex_at_birth'', [Str ''Female'']), (''race'', [Str ''White'']),
          (''ethnicity'', [Str ''Not Hispanic or Latino'']),
          (''median_income'', [Num 52000]), (''fraction_poverty'', [Num 12]),
          (''fraction_no_health_ins'', [Num 8])]"
  have g: "groups ?td = Inr [Str ''White'']"
    and g': "groups_eth ?td = Inr [Str ''Not Hispanic or Latino'']"
    by (simp_all add: groups_def groups_eth_def getitem_def)
  have n: "length [Str ''White''] < 2" "length [Str ''Not Hispanic or Latino''] < 2"
    by simp_all
  from fewer_than_two_groups_raises
         [of "combined_frame cohort" ?td "[Str ''White'']" "fixed_lib (Fl 0)" ?td
             "[Str ''Not Hispanic or Latino'']"]
    test_data_cohort test_data_eth_cohort g g' n
  show ?thesis by simp
qed

text \<open>
  C6 as stated fails: on the cohort of three subjects only one race group has an income, and
  the run of level 2 ends on the \<^verbatim>\<open>ValueError\<close> of the test instead of skipping the comparison.
\<close>

theorem insufficient_groups_counterexample:
  "bnd (test_data (combined_frame cohort)) groups = Inr [Str ''White''] \<and>
   outcome (run_level2 (Some ''proj.cdr'') (warehouse ''proj.cdr'' cohort) (fixed_lib (Fl 0))) =
     Inl (ValueError ''Need at least two groups in stats.kruskal()'')"
proof -
  obtain pd where pd: "plot_data (combined_frame cohort) = Inr pd"
    by (simp add: plot_data_def getitem_def combined_frame_cohort)
  have "plot1 (fixed_lib (Fl 0)) (combined_frame cohort) =
          Inl (ValueError ''Need at least two groups in stats.kruskal()'')"
    by (simp add: plot1_def pd test_data_cohort groups_def income_by_group_def getitem_def
        kruskal_def)
  then show ?thesis
    by (simp add: run_level2_def Let_def warehouse_def run_query_def analyses_l2_def
        test_data_cohort groups_def getitem_def)
qed

subsection \<open>The sentinel category of the income-by-race comparison\<close>

lemma test_data_sentinel_frame:
  "test_data sentinel_frame =
     Inr [(''race'', [Str ''Asian'', Str ''White'']),
          (''median_income'', [Num 41000, Num 60500])]"
  by (simp add: sentinel_frame_def test_data_def bnd_def getitem_def dropna_def df_mask_def
      select_def ne_mask_def notna_def and_masks_def nrows_def)

lemma test_data_no_sentinel:
  "test_data df = Inr td \<Longrightarrow> getitem td ''race'' = Inr race \<Longrightarrow>
     Str ''No matching concept'' \<notin> set race"
  by (auto simp: test_data_def bnd_def getitem_df_mask ne_mask_def select_map_self
      split: sum.splits)

lemma plot_data_Inr:
  "map_of df ''race'' \<noteq> None \<Longrightarrow> \<exists>pd. plot_data df = Inr pd"
  by (auto simp: plot_data_def getitem_def)

text \<open>
  C3. The income-by-race comparison removes the rows whose race is the sentinel label
  \<^verbatim>\<open>No matching concept\<close> (and the rows without a race or without an income) before it takes
  the groups. So whenever the cleaned frame \<^verbatim>\<open>test_data\<close> exists, its race column does not
  hold the sentinel, the groups are the distinct values of that column and do not hold it
  either, and what the comparison hands to \<^verbatim>\<open>stats.kruskal\<close> is one income sample for each of
  these groups, in their order: no sample is that of the sentinel. The comparison reaches
  the test only with such a cleaned frame.
\<close>

theorem groups_never_No_matching_concept:
  "(test_data df = Inr td \<longrightarrow>
      (\<exists>race income gs.
         getitem td ''race'' = Inr race \<and> getitem td ''median_income'' = Inr income \<and>
         Str ''No matching concept'' \<notin> set race \<and>
         groups td = Inr gs \<and> set gs = set race \<and> distinct gs \<and>
         Str ''No matching concept'' \<notin> set gs \<and>
         income_by_group td gs = Inr (map (\<lambda>g. select (eq_mask race g) income) gs) \<and>
         plot1 L df =
           bnd (kruskal L (map (\<lambda>g. select (eq_mask race g) income) gs)) (\<lambda>(hvalue, pvalue).
             Inr (stat_text ''Deviation'' ''Kruskal-Wallis'' pvalue)))) \<and>
   (plot1 L df = Inr r \<longrightarrow> (\<exists>td. test_data df = Inr td))"
proof (intro conjI impI)
  assume td: "test_data df = Inr td"
  then obtain race income where c: "map_of df ''race'' \<noteq> None"
    and r: "getitem td ''race'' = Inr race" and i: "getitem td ''median_income'' = Inr income"
    by (rule test_data_columns)
  from td r have n: "Str ''No matching concept'' \<notin> set race"
    by (rule test_data_no_sentinel)
  from r have g: "groups td = Inr (unique race)"
    by (simp add: groups_def)
  have s: "income_by_group td (unique race)
         = Inr (map (\<lambda>g. select (eq_mask race g) income) (unique race))"
    using i r by (rule income_by_group_Inr)
  from plot_data_Inr [OF c] obtain pd where pd: "plot_data df = Inr pd" ..
  have p: "plot1 L df =
           bnd (kruskal L (map (\<lambda>g. select (eq_mask race g) income) (unique race)))
             (\<lambda>(hvalue, pvalue). Inr (stat_text ''Deviation'' ''Kruskal-Wallis'' pvalue))"
    by (simp add: plot1_def pd td g s)
  from r i n g s p show "\<exists>race income gs.
         getitem td ''race'' = Inr race \<and> getitem td ''median_income'' = Inr income \<and>
         Str ''No matching concept'' \<notin> set race \<and>
         groups td = Inr gs \<and> set gs = set race \<and> distinct gs \<and>
         Str ''No matching concept'' \<notin> set gs \<and>
         income_by_group td gs = Inr (map (\<lambda>g. select (eq_mask race g) income) gs) \<and>
         plot1 L df =
           bnd (kruskal L (map (\<lambda>g. select (eq_mask race g) income) gs)) (\<lambda>(hvalue, pvalue).
             Inr (stat_text ''Deviation'' ''Kruskal-Wallis'' pvalue))"
    by (intro exI [of _ race] exI [of _ income] exI [of _ "unique race"])
       (simp add: set_unique distinct_unique)
next
  assume "plot1 L df = Inr r"
  then show "\<exists>td. test_data df = Inr td"
    by (auto simp: plot1_def bnd_Inr_iff)
qed

theorem groups_never_No_matching_concept_witness:
  "test_data sentinel_frame =
     Inr [(''race'', [Str ''Asian'', Str ''White'']),
          (''median_income'', [Num 41000, Num 60500])] \<and>
   groups [(''race'', [Str ''Asian'', Str ''White'']),
           (''median_income'', [Num 41000, Num 60500])] = Inr [Str ''Asian'', Str ''White''] \<and>
   Str ''No matching concept'' \<notin> set [Str ''Asian'', Str ''White''] \<and>
   plot1 (fixed_lib (Fl 0)) sentinel_frame =
     bnd (kruskal (fixed_lib (Fl 0)) [[Num 41000], [Num 60500]]) (\<lambda>(hvalue, pvalue).
       Inr (stat_text ''Deviation'' ''Kruskal-Wallis'' pvalue)) \<and>
   plot1 (fixed_lib (Fl 0)) sentinel_frame =
     Inr (stat_text ''Deviation'' ''Kruskal-Wallis'' (Fl 0))"
proof -
  let ?td = "[(''race'', [Str ''Asian'', Str ''White'']),
              (''median_income'', [Num 41000, Num 60500])]"
  from groups_never_No_matching_concept [of sentinel_frame ?td "fixed_lib (Fl 0)",
      THEN conjunct1, THEN mp, OF test_data_sentinel_frame]
  obtain race income gs where r: "getitem ?td ''race'' = Inr race"
    and i: "getitem ?td ''median_income'' = Inr income"
    and g: "groups ?td = Inr gs" and n: "Str ''No matching concept'' \<notin> set gs"
    and p: "plot1 (fixed_lib (Fl 0)) sentinel_frame =
           bnd (kruskal (fixed_lib (Fl 0)) (map (\<lambda>g. select (eq_mask race g) income) gs))
             (\<lambda>(hvalue, pvalue). Inr (stat_text ''Deviation'' ''Kruskal-Wallis'' pvalue))"
    by blast
  from r have race: "race = [Str ''Asian'', Str ''White'']"
    by (simp add: getitem_def)
  from i have income: "income = [Num 41000, Num 60500]"
    by (simp add: getitem_def)
  from g have gs: "gs = [Str ''Asian'', Str ''White'']"
    by (simp add: groups_def getitem_def)
  have m: "map (\<lambda>g. select (eq_mask race g) income) gs = [[Num 41000], [Num 60500]]"
    by (simp add: race income gs select_def eq_mask_def)
  from p have p': "plot1 (fixed_lib (Fl 0)) sentinel_frame =
     bnd (kruskal (fixed_lib (Fl 0)) [[Num 41000], [Num 60500]]) (\<lambda>(hvalue, pvalue).
       Inr (stat_text ''Deviation'' ''Kruskal-Wallis'' pvalue))"
    by (simp only: m)
  then have v: "plot1 (fixed_lib (Fl 0)) sentinel_frame =
     Inr (stat_text ''Deviation'' ''Kruskal-Wallis'' (Fl 0))"
    by (simp add: kruskal_def fixed_lib_def)
  from g gs have g': "groups ?td = Inr [Str ''Asian'', Str ''White'']"
    by simp
  from n gs have n': "Str ''No matching concept'' \<notin> set [Str ''Asian'', Str ''White'']"
    by simp
  from test_data_sentinel_frame g' n' p' v show ?thesis
    by (intro conjI)
qed

subsection \<open>The ethnicity label of plot 2\<close>

lemma map_of_setitem: "map_of (setitem df c s) c' = (if c' = c then Some s else map_of df c')"
  by (induction df) auto

lemma nrows_setitem:
  "map_of df c = Some s0 \<Longrightarrow> length s = length s0 \<Longrightarrow> nrows (setitem df c s) = nrows df"
  by (cases df) (auto simp: nrows_def split: if_splits)

lemma set_select:
  "set (select m xs) = {xs ! i | i. i < length xs \<and> i < length m \<and> m ! i}"
proof -
  have "set (select m xs) = {x. (True, x) \<in> set (zip m xs)}"
    by (force simp: select_def)
  also have "\<dots> = {xs ! i | i. i < length xs \<and> i < length m \<and> m ! i}"
    by (auto simp: set_zip)
  finally show ?thesis .
qed

lemma select_nth_iff:
  "length m = n \<Longrightarrow> length xs = n \<Longrightarrow>
     v \<in> set (select m xs) \<longleftrightarrow> (\<exists>i < n. m ! i \<and> xs ! i = v)"
  by (auto simp: set_select)

lemma length_and_masks [simp]: "length (and_masks a b) = min (length a) (length b)"
  by (simp add: and_masks_def)

lemma nth_and_masks:
  "i < length a \<Longrightarrow> i < length b \<Longrightarrow> and_masks a b ! i = (a ! i \<and> b ! i)"
  by (simp add: and_masks_def)

lemma dropna_two:
  "map_of df a = Some xs \<Longrightarrow> map_of df b = Some ys \<Longrightarrow>
     dropna df [a, b] =
       Inr (df_mask df (and_masks (notna xs) (and_masks (notna ys) (replicate (nrows df) True))))"
  by (simp add: dropna_def)

lemma well_formed_length: "well_formed df \<Longrightarrow> map_of df c = Some s \<Longrightarrow> length s = nrows df"
  by (auto simp: well_formed_def list_all_iff dest: map_of_SomeD)

lemma replace_value_props:
  "length (replace_value s a b) = length s"
  "a \<noteq> b \<Longrightarrow> a \<notin> set (replace_value s a b)"
  "i < length s \<Longrightarrow> replace_value s a b ! i = (if s ! i = a then b else s ! i)"
  by (auto simp: replace_value_def)

lemma labels_differ: "Str long_label \<noteq> Str short_label"
  by (simp add: long_label_def short_label_def)

lemma relabelled_groups:
  "clean_ethnicity df = Inr df1 \<and> test_data_eth df1 = Inr td \<and> groups_eth td = Inr gs \<longrightarrow>
     Str long_label \<notin> set gs \<and>
     (\<exists>vals grps. dunn_results L df1 = posthoc_dunn_bonferroni L vals grps \<and>
                  set grps = set gs) \<and>
     (well_formed df \<and> getitem df ''ethnicity'' = Inr eth \<and>
      getitem df ''fraction_poverty'' = Inr pov \<longrightarrow>
        (Str short_label \<in> set gs \<longleftrightarrow>
           (\<exists>i < nrows df. (eth ! i = Str long_label \<or> eth ! i = Str short_label) \<and>
                           pov ! i \<noteq> Null)))"
proof (intro impI, elim conjE)
  assume cl: "clean_ethnicity df = Inr df1" and td: "test_data_eth df1 = Inr td"
    and gs: "groups_eth td = Inr gs"
  from cl obtain eth0 where e0: "map_of df ''ethnicity'' = Some eth0"
    and df1: "df1 = setitem df ''ethnicity'' (replace_value eth0 (Str long_label) (Str short_label))"
    by (auto simp: clean_ethnicity_def bnd_Inr_iff getitem_Inr_iff)
  let ?eth1 = "replace_value eth0 (Str long_label) (Str short_label)"
  have e1: "map_of df1 ''ethnicity'' = Some ?eth1"
    by (simp add: df1 map_of_setitem)
  from td obtain m0 where "td = df_mask df1 m0"
    and "map_of df1 ''fraction_poverty'' \<noteq> None"
    unfolding test_data_eth_def by (rule dropna_Inr) simp
  then obtain pov0 where p1: "map_of df1 ''fraction_poverty'' = Some pov0" by auto
  then have p0: "map_of df ''fraction_poverty'' = Some pov0"
    by (simp add: df1 map_of_setitem)
  let ?m = "and_masks (notna ?eth1) (and_masks (notna pov0) (replicate (nrows df1) True))"
  from td dropna_two [OF e1 p1] have tdm: "td = df_mask df1 ?m"
    by (simp add: test_data_eth_def)
  have te: "getitem td ''ethnicity'' = Inr (select ?m ?eth1)"
    and tp: "getitem td ''fraction_poverty'' = Inr (select ?m pov0)"
    by (simp_all add: tdm getitem_Inr_iff map_of_df_mask e1 p1)
  from gs te have g: "set gs = set (select ?m ?eth1)"
    by (auto simp: groups_eth_def set_unique)
  have "set (select ?m ?eth1) \<subseteq> set ?eth1"
    by (auto simp: set_select)
  with g replace_value_props(2) [OF labels_differ, of eth0]
  have a: "Str long_label \<notin> set gs" by blast
  have "dunn_results L df1 = posthoc_dunn_bonferroni L (select ?m pov0) (select ?m ?eth1)"
    by (simp add: dunn_results_def td posthoc_dunn_def te tp)
  with g have b: "\<exists>vals grps. dunn_results L df1 = posthoc_dunn_bonferroni L vals grps \<and>
                  set grps = set gs"
    by blast
  have c: "Str short_label \<in> set gs \<longleftrightarrow>
           (\<exists>i < nrows df. (eth ! i = Str long_label \<or> eth ! i = Str short_label) \<and>
                           pov ! i \<noteq> Null)"
    if wf: "well_formed df" and e: "getitem df ''ethnicity'' = Inr eth"
      and p: "getitem df ''fraction_poverty'' = Inr pov"
  proof -
    from e e0 p p0 have [simp]: "eth = eth0" "pov = pov0"
      by (simp_all add: getitem_Inr_iff)
    have le: "length eth0 = nrows df" and lp: "length pov0 = nrows df"
      using well_formed_length [OF wf e0] well_formed_length [OF wf p0] by simp_all
    have n1: "nrows df1 = nrows df"
      unfolding df1 by (rule nrows_setitem [OF e0]) (simp add: replace_value_props)
    have lm: "length ?m = nrows df"
      by (simp add: notna_def replace_value_props le lp n1)
    have mi: "?m ! i = (?eth1 ! i \<noteq> Null \<and> pov0 ! i \<noteq> Null)" if "i < nrows df" for i
      using that by (simp add: nth_and_masks notna_def replace_value_props le lp n1)
    have l1: "length ?eth1 = nrows df"
      by (simp add: replace_value_props le)
    have per: "(?m ! i \<and> ?eth1 ! i = Str short_label) \<longleftrightarrow>
                 ((eth0 ! i = Str long_label \<or> eth0 ! i = Str short_label) \<and> pov0 ! i \<noteq> Null)"
      if "i < nrows df" for i
      using that le by (auto simp: mi replace_value_props)
    have "Str short_label \<in> set gs \<longleftrightarrow>
            (\<exists>i < nrows df. ?m ! i \<and> ?eth1 ! i = Str short_label)"
      unfolding g by (rule select_nth_iff [OF lm l1])
    also have "\<dots> \<longleftrightarrow> (\<exists>i < nrows df. (eth0 ! i = Str long_label \<or> eth0 ! i = Str short_label) \<and>
                           pov0 ! i \<noteq> Null)"
      using per by blast
    finally show ?thesis by simp
  qed
  from a b c show "Str long_label \<notin> set gs \<and>
     (\<exists>vals grps. dunn_results L df1 = posthoc_dunn_bonferroni L vals grps \<and>
                  set grps = set gs) \<and>
     (well_formed df \<and> getitem df ''ethnicity'' = Inr eth \<and>
      getitem df ''fraction_poverty'' = Inr pov \<longrightarrow>
        (Str short_label \<in> set gs \<longleftrightarrow>
           (\<exists>i < nrows df. (eth ! i = Str long_label \<or> eth ! i = Str short_label) \<and>
                           pov ! i \<noteq> Null)))"
    by blast
qed

lemma plot2_on_test_data:
  assumes td: "test_data_eth df1 = Inr td"
  shows "\<exists>eth poverty.
     getitem td ''ethnicity'' = Inr eth \<and> getitem td ''fraction_poverty'' = Inr poverty \<and>
     groups_eth td = Inr (unique eth) \<and>
     plot2 L df1 =
       bnd (kruskal L (map (\<lambda>g. select (eq_mask eth g) poverty) (unique eth)))
         (\<lambda>(hvalue, pvalue). Inr (stat_text ''Deviation'' ''Kruskal-Wallis'' pvalue)) \<and>
     dunn_results L df1 = posthoc_dunn_bonferroni L poverty eth"
proof -
  from td obtain m where t: "td = df_mask df1 m"
    and c: "map_of df1 ''ethnicity'' \<noteq> None" "map_of df1 ''fraction_poverty'' \<noteq> None"
    unfolding test_data_eth_def by (rule dropna_Inr) simp
  from c obtain e0 p0 where "map_of df1 ''ethnicity'' = Some e0"
    and "map_of df1 ''fraction_poverty'' = Some p0"
    by auto
  then have e: "getitem td ''ethnicity'' = Inr (select m e0)"
    and p: "getitem td ''fraction_poverty'' = Inr (select m p0)"
    by (simp_all add: t getitem_Inr_iff map_of_df_mask)
  from e have g: "groups_eth td = Inr (unique (select m e0))"
    by (simp add: groups_eth_def)
  have s: "poverty_by_group td (unique (select m e0))
         = Inr (map (\<lambda>g. select (eq_mask (select m e0) g) (select m p0)) (unique (select m e0)))"
    using p e by (rule poverty_by_group_Inr)
  have p2: "plot2 L df1 =
       bnd (kruskal L (map (\<lambda>g. select (eq_mask (select m e0) g) (select m p0))
                         (unique (select m e0))))
         (\<lambda>(hvalue, pvalue). Inr (stat_text ''Deviation'' ''Kruskal-Wallis'' pvalue))"
    by (simp add: plot2_def td g s)
  have d: "dunn_results L df1 = posthoc_dunn_bonferroni L (select m p0) (select m e0)"
    by (simp add: dunn_results_def td posthoc_dunn_def e p)
  from e p g p2 d show ?thesis by blast
qed

text \<open>
  C10 (as the code has it). The script replaces the long ethnicity label by
  \<^verbatim>\<open>None Of These\<close> in the frame after the income-by-race comparison and before the
  poverty-by-ethnicity comparison. So in every run of the analyses that reaches its end,
  the poverty-by-ethnicity comparison and Dunn's test were made on the rows of the
  relabelled frame that have an ethnicity and a poverty value: the groups are the distinct
  ethnicities of these rows, the text of plot 2 is that of \<^verbatim>\<open>stats.kruskal\<close> on one poverty
  sample for each group, the table is that of Dunn's test on the two columns of these rows,
  and neither the groups nor the ethnicity column of the frame at the end contain the long
  label. The groups contain \<^verbatim>\<open>None Of These\<close> exactly when some row with the long or the
  short label has a poverty value: the rows without one are dropped before the groups are
  taken.
\<close>

theorem relabelled_ethnicity_groups:
  "analyses_l2 L df = Inr res \<longrightarrow>
     (\<exists>df1 td eth poverty gs eth2.
        clean_ethnicity df = Inr df1 \<and> test_data_eth df1 = Inr td \<and>
        getitem td ''ethnicity'' = Inr eth \<and> getitem td ''fraction_poverty'' = Inr poverty \<and>
        groups_eth td = Inr gs \<and> set gs = set eth \<and> Str long_label \<notin> set gs \<and>
        bnd (kruskal L (map (\<lambda>g. select (eq_mask eth g) poverty) gs)) (\<lambda>(hvalue, pvalue).
          Inr (stat_text ''Deviation'' ''Kruskal-Wallis'' pvalue)) = Inr (poverty_by_ethnicity res) \<and>
        posthoc_dunn_bonferroni L poverty eth = Inr (dunn_table res) \<and>
        getitem (frame_at_end res) ''ethnicity'' = Inr eth2 \<and> Str long_label \<notin> set eth2 \<and>
        (well_formed df \<and> getitem df ''ethnicity'' = Inr eth0 \<and>
         getitem df ''fraction_poverty'' = Inr pov \<longrightarrow>
           (Str short_label \<in> set gs \<longleftrightarrow>
              (\<exists>i < nrows df. (eth0 ! i = Str long_label \<or> eth0 ! i = Str short_label) \<and>
                              pov ! i \<noteq> Null))))"
proof
  assume a: "analyses_l2 L df = Inr res"
  then obtain t1 df1 t2 dunn df2 mdf t3 where cl: "clean_ethnicity df = Inr df1"
    and p2: "plot2 L df1 = Inr t2" and du: "dunn_results L df1 = Inr dunn"
    and p3: "plot3 L df1 = Inr (df2, mdf, t3)"
    and res: "res = \<lparr>income_by_race = t1, poverty_by_ethnicity = t2, dunn_table = dunn,
                     percent_missing = mdf, missing_by_race = t3, frame_at_end = df2\<rparr>"
    by (auto simp: analyses_l2_def bnd_Inr_iff)
  from p2 obtain td where td: "test_data_eth df1 = Inr td"
    by (auto simp: plot2_def bnd_Inr_iff)
  from plot2_on_test_data [OF td, of L] obtain eth poverty
    where e: "getitem td ''ethnicity'' = Inr eth"
      and p: "getitem td ''fraction_poverty'' = Inr poverty"
      and g: "groups_eth td = Inr (unique eth)"
      and k: "plot2 L df1 =
         bnd (kruskal L (map (\<lambda>g. select (eq_mask eth g) poverty) (unique eth)))
           (\<lambda>(hvalue, pvalue). Inr (stat_text ''Deviation'' ''Kruskal-Wallis'' pvalue))"
      and d: "dunn_results L df1 = posthoc_dunn_bonferroni L poverty eth"
    by blast
  note R = relabelled_groups [of df df1 td "unique eth" L eth0 pov, THEN mp,
      OF conjI [OF cl conjI [OF td g]]]
  from cl obtain e0 where e0: "map_of df ''ethnicity'' = Some e0"
    and df1: "df1 = setitem df ''ethnicity'' (replace_value e0 (Str long_label) (Str short_label))"
    by (auto simp: clean_ethnicity_def bnd_Inr_iff getitem_Inr_iff)
  from p3 obtain s where "df2 = setitem df1 ''ses_data_missing'' s"
    by (auto simp: plot3_def add_ses_data_missing_def bnd_Inr_iff)
  then have e2: "getitem (frame_at_end res) ''ethnicity''
               = Inr (replace_value e0 (Str long_label) (Str short_label))"
    by (simp add: res df1 getitem_Inr_iff map_of_setitem)
  have n2: "Str long_label \<notin> set (replace_value e0 (Str long_label) (Str short_label))"
    by (rule replace_value_props(2) [OF labels_differ])
  have k': "bnd (kruskal L (map (\<lambda>g. select (eq_mask eth g) poverty) (unique eth)))
           (\<lambda>(hvalue, pvalue). Inr (stat_text ''Deviation'' ''Kruskal-Wallis'' pvalue))
          = Inr (poverty_by_ethnicity res)"
    using k p2 by (simp add: res)
  have d': "posthoc_dunn_bonferroni L poverty eth = Inr (dunn_table res)"
    using d du by (simp add: res)
  have su: "set (unique eth) = set eth"
    by (rule set_unique)
  from cl td e p g su R [THEN conjunct1] k' d' e2 n2 R [THEN conjunct2, THEN conjunct2]
  show "\<exists>df1 td eth poverty gs eth2.
        clean_ethnicity df = Inr df1 \<and> test_data_eth df1 = Inr td \<and>
        getitem td ''ethnicity'' = Inr eth \<and> getitem td ''fraction_poverty'' = Inr poverty \<and>
        groups_eth td = Inr gs \<and> set gs = set eth \<and> Str long_label \<notin> set gs \<and>
        bnd (kruskal L (map (\<lambda>g. select (eq_mask eth g) poverty) gs)) (\<lambda>(hvalue, pvalue).
          Inr (stat_text ''Deviation'' ''Kruskal-Wallis'' pvalue)) = Inr (poverty_by_ethnicity res) \<and>
        posthoc_dunn_bonferroni L poverty eth = Inr (dunn_table res) \<and>
        getitem (frame_at_end res) ''ethnicity'' = Inr eth2 \<and> Str long_label \<notin> set eth2 \<and>
        (well_formed df \<and> getitem df ''ethnicity'' = Inr eth0 \<and>
         getitem df ''fraction_poverty'' = Inr pov \<longrightarrow>
           (Str short_label \<in> set gs \<longleftrightarrow>
              (\<exists>i < nrows df. (eth0 ! i = Str long_label \<or> eth0 ! i = Str short_label) \<and>
                              pov ! i \<noteq> Null)))"
    by (intro exI [of _ df1] exI [of _ td] exI [of _ eth] exI [of _ poverty]
          exI [of _ "unique eth"]
          exI [of _ "replace_value e0 (Str long_label) (Str short_label)"] conjI)
qed

lemma plot1_analysis_frame:
  "plot1 (fixed_lib (Fl 0)) analysis_frame =
     Inr (stat_text ''Deviation'' ''Kruskal-Wallis'' (Fl 0))"
  by (simp add: analysis_frame_def plot1_def plot_data_def test_data_def getitem_def dropna_def
      df_mask_def select_def ne_mask_def notna_def and_masks_def nrows_def groups_def
      income_by_group_def eq_mask_def kruskal_def fixed_lib_def)

lemma clean_analysis_frame:
  "clean_ethnicity analysis_frame =
     Inr [(''race'', [Str ''White'', Str ''Asian'', Str ''White'', Str ''Asian'',
                      Str ''No matching concept'']),
          (''ethnicity'',
           [Str ''None Of These'', Str ''Hispanic or Latino'', Str ''Not Hispanic or Latino'',
            Str ''Hispanic or Latino'', Null]),
          (''median_income'', [Num 52000, Num 61000, Null, Num 47000, Num 38000]),
          (''fraction_poverty'', [Num 20, Num 12, Num 9, Null, Num 11])]"
  by (simp add: analysis_frame_def clean_ethnicity_def getitem_def replace_value_def
      long_label_def short_label_def)

lemma test_data_eth_analysis_frame:
  "test_data_eth
     [(''race'', [Str ''White'', Str ''Asian'', Str ''White'', Str ''Asian'',
                  Str ''No matching concept'']),
      (''ethnicity'',
       [Str ''None Of These'', Str ''Hispanic or Latino'', Str ''Not Hispanic or Latino'',
        Str ''Hispanic or Latino'', Null]),
      (''median_income'', [Num 52000, Num 61000, Null, Num 47000, Num 38000]),
      (''fraction_poverty'', [Num 20, Num 12, Num 9, Null, Num 11])] =
     Inr [(''race'', [Str ''White'', Str ''Asian'', Str ''White'']),
          (''ethnicity'',
           [Str ''None Of These'', Str ''Hispanic or Latino'', Str ''Not Hispanic or Latino'']),
          (''median_income'', [Num 52000, Num 61000, Null]),
          (''fraction_poverty'', [Num 20, Num 12, Num 9])]"
  by (simp add: test_data_eth_def dropna_def df_mask_def select_def notna_def and_masks_def
      nrows_def)

lemma plot3_analysis_frame:
  "\<exists>r. plot3 (fixed_lib (Fl 0))
     [(''race'', [Str ''White'', Str ''Asian'', Str ''White'', Str ''Asian'',
                  Str ''No matching concept'']),
      (''ethnicity'',
       [Str ''None Of These'', Str ''Hispanic or Latino'', Str ''Not Hispanic or Latino'',
        Str ''Hispanic or Latino'', Null]),
      (''median_income'', [Num 52000, Num 61000, Null, Num 47000, Num 38000]),
      (''fraction_poverty'', [Num 20, Num 12, Num 9, Null, Num 11])] = Inr r"
  by (simp add: plot3_def missing_data_def add_ses_data_missing_def contingency_table_def
      getitem_def fixed_lib_def isnull_def)

lemma analyses_l2_analysis_frame:
  "\<exists>res. analyses_l2 (fixed_lib (Fl 0)) analysis_frame = Inr res"
proof -
  let ?df1 = "[(''race'', [Str ''White'', Str ''Asian'', Str ''White'', Str ''Asian'',
                  Str ''No matching concept'']),
      (''ethnicity'',
       [Str ''None Of These'', Str ''Hispanic or Latino'', Str ''Not Hispanic or Latino'',
        Str ''Hispanic or Latino'', Null]),
      (''median_income'', [Num 52000, Num 61000, Null, Num 47000, Num 38000]),
      (''fraction_poverty'', [Num 20, Num 12, Num 9, Null, Num 11])]"
  have p2: "plot2 (fixed_lib (Fl 0)) ?df1 = Inr (stat_text ''Deviation'' ''Kruskal-Wallis'' (Fl 0))"
    by (simp add: plot2_def test_data_eth_analysis_frame groups_eth_def getitem_def
        poverty_by_group_def select_def eq_mask_def kruskal_def fixed_lib_def)
  have du: "dunn_results (fixed_lib (Fl 0)) ?df1 = Inr []"
    by (simp add: dunn_results_def test_data_eth_analysis_frame posthoc_dunn_def getitem_def
        fixed_lib_def)
  from plot3_analysis_frame obtain r where "plot3 (fixed_lib (Fl 0)) ?df1 = Inr r" ..
  then show ?thesis
    by (simp add: analyses_l2_def plot1_analysis_frame clean_analysis_frame p2 du
        case_prod_beta)
qed

theorem relabelled_ethnicity_groups_witness:
  "(\<exists>res. analyses_l2 (fixed_lib (Fl 0)) analysis_frame = Inr res) \<and>
   well_formed analysis_frame \<and>
   bnd (clean_ethnicity analysis_frame) (\<lambda>d. bnd (test_data_eth d) groups_eth) =
     Inr [Str ''None Of These'', Str ''Hispanic or Latino'', Str ''Not Hispanic or Latino''] \<and>
   Str long_label \<notin>
     set [Str ''None Of These'', Str ''Hispanic or Latino'', Str ''Not Hispanic or Latino''] \<and>
   Str short_label \<in>
     set [Str ''None Of These'', Str ''Hispanic or Latino'', Str ''Not Hispanic or Latino'']"
proof -
  let ?eth0 = "[Str ''What Race Ethnicity: Race Ethnicity None Of These'',
                Str ''Hispanic or Latino'', Str ''Not Hispanic or Latino'',
                Str ''Hispanic or Latino'', Null]"
  let ?pov = "[Num 20, Num 12, Num 9, Null, Num 11]"
  let ?gs = "[Str ''None Of These'', Str ''Hispanic or Latino'', Str ''Not Hispanic or Latino'']"
  from analyses_l2_analysis_frame obtain res
    where a: "analyses_l2 (fixed_lib (Fl 0)) analysis_frame = Inr res" ..
  have wf: "well_formed analysis_frame"
    by (simp add: well_formed_def analysis_frame_def nrows_def)
  have e0: "getitem analysis_frame ''ethnicity'' = Inr ?eth0"
    and p0: "getitem analysis_frame ''fraction_poverty'' = Inr ?pov"
    by (simp_all add: analysis_frame_def getitem_def)
  have ex: "\<exists>i < nrows analysis_frame.
              (?eth0 ! i = Str long_label \<or> ?eth0 ! i = Str short_label) \<and> ?pov ! i \<noteq> Null"
    by (rule exI [of _ 0]) (simp add: analysis_frame_def nrows_def long_label_def)
  from relabelled_ethnicity_groups [of "fixed_lib (Fl 0)" analysis_frame res ?eth0 ?pov,
      THEN mp, OF a]
  obtain df1 td gs where cl: "clean_ethnicity analysis_frame = Inr df1"
    and td: "test_data_eth df1 = Inr td" and g: "groups_eth td = Inr gs"
    and n: "Str long_label \<notin> set gs"
    and i: "well_formed analysis_frame \<and> getitem analysis_frame ''ethnicity'' = Inr ?eth0 \<and>
            getitem analysis_frame ''fraction_poverty'' = Inr ?pov \<longrightarrow>
              (Str short_label \<in> set gs \<longleftrightarrow>
                 (\<exists>i < nrows analysis_frame.
                    (?eth0 ! i = Str long_label \<or> ?eth0 ! i = Str short_label) \<and>
                    ?pov ! i \<noteq> Null))"
    by blast
  from i [THEN mp, OF conjI [OF wf conjI [OF e0 p0]]] ex
  have s: "Str short_label \<in> set gs" by (rule iffD2)
  from cl td g have b: "bnd (clean_ethnicity analysis_frame)
                          (\<lambda>d. bnd (test_data_eth d) groups_eth) = Inr gs"
    by simp
  from cl have d1: "df1 =
     [(''race'', [Str ''White'', Str ''Asian'', Str ''White'', Str ''Asian'',
                  Str ''No matching concept'']),
      (''ethnicity'',
       [Str ''None Of These'', Str ''Hispanic or Latino'', Str ''Not Hispanic or Latino'',
        Str ''Hispanic or Latino'', Null]),
      (''median_income'', [Num 52000, Num 61000, Null, Num 47000, Num 38000]),
      (''fraction_poverty'', [Num 20, Num 12, Num 9, Null, Num 11])]"
    by (simp add: clean_analysis_frame)
  from td have t: "td =
     [(''race'', [Str ''White'', Str ''Asian'', Str ''White'']),
      (''ethnicity'',
       [Str ''None Of These'', Str ''Hispanic or Latino'', Str ''Not Hispanic or Latino'']),
      (''median_income'', [Num 52000, Num 61000, Null]),
      (''fraction_poverty'', [Num 20, Num 12, Num 9])]"
    unfolding d1 by (simp add: test_data_eth_analysis_frame)
  from g have gs: "gs = ?gs"
    unfolding t by (simp add: groups_eth_def getitem_def)
  from analyses_l2_analysis_frame wf b [unfolded gs] n [unfolded gs] s [unfolded gs]
  show ?thesis
    by (intro conjI)
qed

text \<open>
  C10 as stated fails: a row set can contain the long label and yet the groups of the
  comparison do not contain \<^verbatim>\<open>None Of These\<close>, when the rows with that label have no poverty
  value. The comparison itself runs on the two groups that remain.
\<close>

theorem relabelled_group_absent_counterexample:
  "Str long_label \<in> set (the (map_of labelled_null_frame ''ethnicity'')) \<and>
   bnd (clean_ethnicity labelled_null_frame) (\<lambda>d. bnd (test_data_eth d) groups_eth) =
     Inr [Str ''Hispanic or Latino'', Str ''Not Hispanic or Latino''] \<and>
   Str ''None Of These'' \<notin> set [Str ''Hispanic or Latino'', Str ''Not Hispanic or Latino''] \<and>
   bnd (clean_ethnicity labelled_null_frame) (plot2 (fixed_lib (Fl (1 / 4)))) =
     Inr (stat_text ''Deviation'' ''Kruskal-Wallis'' (Fl (1 / 4)))"
  by (simp add: labelled_null_frame_def clean_ethnicity_def getitem_def replace_value_def
      long_label_def short_label_def test_data_eth_def dropna_def df_mask_def select_def
      notna_def and_masks_def nrows_def groups_eth_def plot2_def poverty_by_group_def
      eq_mask_def kruskal_def fixed_lib_def)

subsection \<open>Missing SES data by race\<close>




















lemma missing_data_cohort:
  "missing_data (combined_frame cohort) = Inr [(Str ''Asian'', Fl 100), (Str ''White'', Fl 0)]"
  by (simp add: combined_frame_cohort missing_data_def getitem_def group_keys_def label_def
      select_def eq_mask_def isnull_mean_def isnull_def times100_def round_double_numeral)



subsection \<open>What the analyses write into the shared frame\<close>

lemma getitem_cong: "map_of df c = map_of df' c \<Longrightarrow> getitem df c = getitem df' c"
  by (simp add: getitem_def)

lemma dropna_agree:
  assumes n: "nrows df = nrows df'" and c: "\<forall>c \<in> set cs. map_of df c = map_of df' c"
  shows "(\<exists>e. dropna df cs = Inl e \<and> dropna df' cs = Inl e) \<or>
         (\<exists>m. dropna df cs = Inr (df_mask df m) \<and> dropna df' cs = Inr (df_mask df' m))"
proof -
  from c have f: "filter (\<lambda>c. map_of df c = None) cs = filter (\<lambda>c. map_of df' c = None) cs"
    by (intro filter_cong) auto
  from c have g: "foldr (\<lambda>c m. and_masks (notna (the (map_of df c))) m) cs (replicate (nrows df) True)
                = foldr (\<lambda>c m. and_masks (notna (the (map_of df' c))) m) cs (replicate (nrows df') True)"
    unfolding n by (intro foldr_cong) auto
  show ?thesis
  proof (cases "filter (\<lambda>c. map_of df' c = None) cs")
    case Nil
    then have "dropna df cs = Inr (df_mask df (foldr (\<lambda>c m. and_masks (notna (the (map_of df' c))) m)
                 cs (replicate (nrows df') True)))"
      and "dropna df' cs = Inr (df_mask df' (foldr (\<lambda>c m. and_masks (notna (the (map_of df' c))) m)
                 cs (replicate (nrows df') True)))"
      by (simp_all add: dropna_def f g)
    then show ?thesis by blast
  next
    case (Cons a as)
    then show ?thesis by (simp add: dropna_def f)
  qed
qed

lemma getitem_df_mask_cong:
  "getitem df c = getitem df' c \<Longrightarrow> getitem (df_mask df m) c = getitem (df_mask df' m) c"
  by (simp add: getitem_df_mask)

text \<open>Two frames on which a comparison reads the same data.\<close>

lemma dropna_two_agree:
  assumes n: "nrows df = nrows df'"
    and a: "map_of df a = map_of df' a" and b: "map_of df b = map_of df' b"
  shows "(\<exists>e. dropna df [a, b] = Inl e \<and> dropna df' [a, b] = Inl e) \<or>
         (\<exists>t t'. dropna df [a, b] = Inr t \<and> dropna df' [a, b] = Inr t' \<and>
                  getitem t a = getitem t' a \<and> getitem t b = getitem t' b)"
proof -
  have "\<forall>c \<in> set [a, b]. map_of df c = map_of df' c"
    using a b by simp
  from dropna_agree [OF n this] show ?thesis
  proof
    assume "\<exists>e. dropna df [a, b] = Inl e \<and> dropna df' [a, b] = Inl e"
    then show ?thesis by blast
  next
    assume "\<exists>m. dropna df [a, b] = Inr (df_mask df m) \<and> dropna df' [a, b] = Inr (df_mask df' m)"
    then obtain m where d: "dropna df [a, b] = Inr (df_mask df m)"
      and d': "dropna df' [a, b] = Inr (df_mask df' m)" by blast
    have "getitem (df_mask df m) a = getitem (df_mask df' m) a"
      and "getitem (df_mask df m) b = getitem (df_mask df' m) b"
      by (rule getitem_df_mask_cong, rule getitem_cong, rule a)
         (rule getitem_df_mask_cong, rule getitem_cong, rule b)
    with d d' show ?thesis by blast
  qed
qed

lemma test_data_agree:
  assumes n: "nrows df = nrows df'"
    and r: "map_of df ''race'' = map_of df' ''race''"
    and i: "map_of df ''median_income'' = map_of df' ''median_income''"
  shows "(\<exists>e. test_data df = Inl e \<and> test_data df' = Inl e) \<or>
         (\<exists>td td'. test_data df = Inr td \<and> test_data df' = Inr td' \<and>
                  getitem td ''race'' = getitem td' ''race'' \<and>
                  getitem td ''median_income'' = getitem td' ''median_income'')"
proof -
  from dropna_two_agree [OF n r i] show ?thesis
  proof
    assume "\<exists>e. dropna df [''race'', ''median_income''] = Inl e \<and>
                dropna df' [''race'', ''median_income''] = Inl e"
    then show ?thesis by (auto simp: test_data_def)
  next
    assume "\<exists>t t'. dropna df [''race'', ''median_income''] = Inr t \<and>
                   dropna df' [''race'', ''median_income''] = Inr t' \<and>
                   getitem t ''race'' = getitem t' ''race'' \<and>
                   getitem t ''median_income'' = getitem t' ''median_income''"
    then obtain t t' where d: "dropna df [''race'', ''median_income''] = Inr t"
      and d': "dropna df' [''race'', ''median_income''] = Inr t'"
      and gr: "getitem t ''race'' = getitem t' ''race''"
      and gi: "getitem t ''median_income'' = getitem t' ''median_income''" by blast
    show ?thesis
    proof (cases "getitem t' ''race''")
      case (Inl e)
      then show ?thesis by (simp add: test_data_def d d' gr)
    next
      case (Inr race)
      let ?m = "ne_mask race (Str ''No matching concept'')"
      have "test_data df = Inr (df_mask t ?m)" and "test_data df' = Inr (df_mask t' ?m)"
        by (simp_all add: test_data_def d d' gr Inr)
      moreover have "getitem (df_mask t ?m) ''race'' = getitem (df_mask t' ?m) ''race''"
        and "getitem (df_mask t ?m) ''median_income'' = getitem (df_mask t' ?m) ''median_income''"
        by (rule getitem_df_mask_cong, rule gr) (rule getitem_df_mask_cong, rule gi)
      ultimately show ?thesis by blast
    qed
  qed
qed

lemma plot1_agree:
  assumes n: "nrows df = nrows df'"
    and r: "map_of df ''race'' = map_of df' ''race''"
    and i: "map_of df ''median_income'' = map_of df' ''median_income''"
  shows "plot1 L df = plot1 L df'"
proof -
  have gr: "getitem df ''race'' = getitem df' ''race''"
    using r by (rule getitem_cong)
  show ?thesis
  proof (cases "getitem df' ''race''")
    case (Inl e)
    then show ?thesis by (simp add: plot1_def plot_data_def gr)
  next
    case (Inr race)
    then have p: "plot1 L df = bnd (test_data df) (\<lambda>td. bnd (groups td) (\<lambda>gs.
                    bnd (income_by_group td gs) (\<lambda>samples. bnd (kruskal L samples)
                      (\<lambda>(hvalue, pvalue). Inr (stat_text ''Deviation'' ''Kruskal-Wallis'' pvalue)))))"
      and p': "plot1 L df' = bnd (test_data df') (\<lambda>td. bnd (groups td) (\<lambda>gs.
                    bnd (income_by_group td gs) (\<lambda>samples. bnd (kruskal L samples)
                      (\<lambda>(hvalue, pvalue). Inr (stat_text ''Deviation'' ''Kruskal-Wallis'' pvalue)))))"
      by (simp_all add: plot1_def plot_data_def gr)
    from test_data_agree [OF n r i] show ?thesis
    proof
      assume "\<exists>e. test_data df = Inl e \<and> test_data df' = Inl e"
      then show ?thesis by (auto simp: p p')
    next
      assume "\<exists>td td'. test_data df = Inr td \<and> test_data df' = Inr td' \<and>
                  getitem td ''race'' = getitem td' ''race'' \<and>
                  getitem td ''median_income'' = getitem td' ''median_income''"
      then obtain td td' where t: "test_data df = Inr td" and t': "test_data df' = Inr td'"
        and g: "getitem td ''race'' = getitem td' ''race''"
          "getitem td ''median_income'' = getitem td' ''median_income''" by blast
      have "groups td = groups td'" and "income_by_group td gs = income_by_group td' gs" for gs
        by (simp_all add: groups_def income_by_group_def g)
      then show ?thesis by (simp add: p p' t t')
    qed
  qed
qed

lemma plot2_agree:
  assumes n: "nrows df = nrows df'"
    and e: "map_of df ''ethnicity'' = map_of df' ''ethnicity''"
    and p: "map_of df ''fraction_poverty'' = map_of df' ''fraction_poverty''"
  shows "plot2 L df = plot2 L df' \<and> dunn_results L df = dunn_results L df'"
proof -
  from dropna_two_agree [OF n e p] show ?thesis
  proof
    assume "\<exists>e. dropna df [''ethnicity'', ''fraction_poverty''] = Inl e \<and>
                dropna df' [''ethnicity'', ''fraction_poverty''] = Inl e"
    then show ?thesis by (auto simp: plot2_def dunn_results_def test_data_eth_def)
  next
    assume "\<exists>t t'. dropna df [''ethnicity'', ''fraction_poverty''] = Inr t \<and>
                   dropna df' [''ethnicity'', ''fraction_poverty''] = Inr t' \<and>
                   getitem t ''ethnicity'' = getitem t' ''ethnicity'' \<and>
                   getitem t ''fraction_poverty'' = getitem t' ''fraction_poverty''"
    then obtain t t' where d: "test_data_eth df = Inr t" and d': "test_data_eth df' = Inr t'"
      and g: "getitem t ''ethnicity'' = getitem t' ''ethnicity''"
        "getitem t ''fraction_poverty'' = getitem t' ''fraction_poverty''"
      unfolding test_data_eth_def by blast
    have "groups_eth t = groups_eth t'" and "poverty_by_group t gs = poverty_by_group t' gs"
      and "posthoc_dunn L t ''fraction_poverty'' ''ethnicity''
             = posthoc_dunn L t' ''fraction_poverty'' ''ethnicity''" for gs
      by (simp_all add: groups_eth_def poverty_by_group_def posthoc_dunn_def g)
    then show ?thesis by (simp add: plot2_def dunn_results_def d d')
  qed
qed

lemma plot3_agree:
  assumes r: "map_of df ''race'' = map_of df' ''race''"
    and i: "map_of df ''median_income'' = map_of df' ''median_income''"
  shows "map_sum id snd (plot3 L df) = map_sum id snd (plot3 L df')"
proof -
  have gr: "getitem df ''race'' = getitem df' ''race''"
    and gi: "getitem df ''median_income'' = getitem df' ''median_income''"
    by (rule getitem_cong, rule r) (rule getitem_cong, rule i)
  have md: "missing_data df = missing_data df'"
    by (simp add: missing_data_def gr i)
  have ct: "contingency_table (setitem df ''ses_data_missing'' s)
              = contingency_table (setitem df' ''ses_data_missing'' s)" for s
    by (simp add: contingency_table_def getitem_def map_of_setitem r)
  show ?thesis
  proof (cases "missing_data df'")
    case (Inl e)
    then show ?thesis by (simp add: plot3_def md)
  next
    case m: (Inr mdv)
    show ?thesis
    proof (cases "getitem df' ''median_income''")
      case (Inl e)
      then show ?thesis by (simp add: plot3_def md m add_ses_data_missing_def gi)
    next
      case (Inr income)
      let ?s = "map Flag (isnull income)"
      show ?thesis
      proof (cases "contingency_table (setitem df' ''ses_data_missing'' ?s)")
        case (Inl e)
        then show ?thesis
          by (simp add: plot3_def md m add_ses_data_missing_def gi Inr ct)
      next
        case c: (Inr table)
        show ?thesis
          by (cases "chi2_contingency L table")
             (simp_all add: plot3_def md m add_ses_data_missing_def gi Inr ct c case_prod_beta)
      qed
    qed
  qed
qed

lemma map_fst_setitem: "map_of df c \<noteq> None \<Longrightarrow> map fst (setitem df c s) = map fst df"
  by (induction df) auto

lemma nrows_setitem_wf:
  "well_formed df \<Longrightarrow> df \<noteq> [] \<Longrightarrow> length s = nrows df \<Longrightarrow> nrows (setitem df c s) = nrows df"
  by (cases df) (auto simp: nrows_def well_formed_def)

text \<open>
  C9 (as the code has it). Two statements of level 2 write into the shared frame: the label
  cleaning before plot 2 replaces its ethnicity column, and the missingness analysis adds
  the column \<^verbatim>\<open>ses_data_missing\<close>. Each leaves the labels and the order of the other columns,
  and every other column, as they were. The comparisons and Dunn's test only read. So the
  income-by-race comparison and the missingness analysis give the same results before and
  after the label cleaning, and the two comparisons and Dunn's test give the same results
  before and after the missingness analysis.
\<close>

theorem shared_frame_updates:
  "(clean_ethnicity df = Inr df1 \<longrightarrow>
      map fst df1 = map fst df \<and>
      (\<forall>c. c \<noteq> ''ethnicity'' \<longrightarrow> map_of df1 c = map_of df c) \<and>
      plot1 L df1 = plot1 L df \<and>
      map_sum id snd (plot3 L df1) = map_sum id snd (plot3 L df)) \<and>
   (well_formed df \<and> plot3 L df = Inr (df3, res) \<longrightarrow>
      (\<forall>c. c \<noteq> ''ses_data_missing'' \<longrightarrow> map_of df3 c = map_of df c) \<and>
      plot1 L df3 = plot1 L df \<and> plot2 L df3 = plot2 L df \<and>
      dunn_results L df3 = dunn_results L df)"
proof (intro conjI impI; (elim conjE)?)
  assume cl: "clean_ethnicity df = Inr df1"
  then obtain eth0 where e0: "map_of df ''ethnicity'' = Some eth0"
    and df1: "df1 = setitem df ''ethnicity'' (replace_value eth0 (Str long_label) (Str short_label))"
    by (auto simp: clean_ethnicity_def bnd_Inr_iff getitem_Inr_iff)
  have n: "nrows df1 = nrows df"
    unfolding df1 by (rule nrows_setitem [OF e0]) (simp add: replace_value_props)
  show "map fst df1 = map fst df"
    unfolding df1 by (rule map_fst_setitem) (simp add: e0)
  show "\<forall>c. c \<noteq> ''ethnicity'' \<longrightarrow> map_of df1 c = map_of df c"
    by (simp add: df1 map_of_setitem)
  show "plot1 L df1 = plot1 L df"
    by (rule plot1_agree [OF n]) (simp_all add: df1 map_of_setitem)
  show "map_sum id snd (plot3 L df1) = map_sum id snd (plot3 L df)"
    by (rule plot3_agree) (simp_all add: df1 map_of_setitem)
next
  assume wf: "well_formed df" and p3: "plot3 L df = Inr (df3, res)"
  from p3 obtain income where i: "map_of df ''median_income'' = Some income"
    and df3: "df3 = setitem df ''ses_data_missing'' (map Flag (isnull income))"
    by (auto simp: plot3_def add_ses_data_missing_def bnd_Inr_iff getitem_Inr_iff)
  from i have ne: "df \<noteq> []" by auto
  have "length (map Flag (isnull income)) = nrows df"
    using well_formed_length [OF wf i] by (simp add: isnull_def)
  then have n: "nrows df3 = nrows df"
    unfolding df3 by (rule nrows_setitem_wf [OF wf ne])
  show "\<forall>c. c \<noteq> ''ses_data_missing'' \<longrightarrow> map_of df3 c = map_of df c"
    by (simp add: df3 map_of_setitem)
  show "plot1 L df3 = plot1 L df"
    by (rule plot1_agree [OF n]) (simp_all add: df3 map_of_setitem)
  show "plot2 L df3 = plot2 L df"
    by (rule plot2_agree [THEN conjunct1, OF n]) (simp_all add: df3 map_of_setitem)
  show "dunn_results L df3 = dunn_results L df"
    by (rule plot2_agree [THEN conjunct2, OF n]) (simp_all add: df3 map_of_setitem)
qed

lemma clean_cohort:
  "clean_ethnicity (combined_frame cohort) =
     Inr (setitem (combined_frame cohort) ''ethnicity''
            [Str ''Not Hispanic or Latino'', Str ''None Of These'',
             Str ''Not Hispanic or Latino''])"
  by (simp add: clean_ethnicity_def combined_frame_cohort getitem_def replace_value_def
      long_label_def short_label_def)

lemma plot3_cohort:
  "plot3 (fixed_lib (Fl 0)) (combined_frame cohort) =
     Inr (setitem (combined_frame cohort) ''ses_data_missing'' [Flag False, Flag True, Flag True],
          [(Str ''Asian'', Fl 100), (Str ''White'', Fl 0)],
          stat_text ''Difference'' ''Chi-Square'' (Fl 0))"
proof -
  note md = missing_data_cohort
  have ad: "add_ses_data_missing (combined_frame cohort) =
              Inr (setitem (combined_frame cohort) ''ses_data_missing''
                     [Flag False, Flag True, Flag True])"
    by (simp add: combined_frame_cohort add_ses_data_missing_def getitem_def isnull_def)
  have ct: "\<exists>table. contingency_table (setitem (combined_frame cohort) ''ses_data_missing''
                     [Flag False, Flag True, Flag True]) = Inr table"
    by (simp add: contingency_table_def getitem_def map_of_setitem combined_frame_cohort)
  then obtain table where "contingency_table (setitem (combined_frame cohort)
         ''ses_data_missing'' [Flag False, Flag True, Flag True]) = Inr table" ..
  then show ?thesis
    by (simp add: plot3_def md ad fixed_lib_def missing_df_def fl_value_def)
qed

theorem shared_frame_updates_witness:
  "well_formed (combined_frame cohort) \<and>
   clean_ethnicity (combined_frame cohort) =
     Inr (setitem (combined_frame cohort) ''ethnicity''
            [Str ''Not Hispanic or Latino'', Str ''None Of These'',
             Str ''Not Hispanic or Latino'']) \<and>
   plot1 (fixed_lib (Fl 0))
     (setitem (combined_frame cohort) ''ethnicity''
        [Str ''Not Hispanic or Latino'', Str ''None Of These'', Str ''Not Hispanic or Latino''])
     = plot1 (fixed_lib (Fl 0)) (combined_frame cohort) \<and>
   plot2 (fixed_lib (Fl 0))
     (setitem (combined_frame cohort) ''ses_data_missing'' [Flag False, Flag True, Flag True])
     = plot2 (fixed_lib (Fl 0)) (combined_frame cohort) \<and>
   dunn_results (fixed_lib (Fl 0))
     (setitem (combined_frame cohort) ''ses_data_missing'' [Flag False, Flag True, Flag True])
     = dunn_results (fixed_lib (Fl 0)) (combined_frame cohort)"
proof -
  have wf: "well_formed (combined_frame cohort)"
    by (simp add: combined_frame_cohort well_formed_def nrows_def)
  note T = shared_frame_updates [of "combined_frame cohort" _ "fixed_lib (Fl 0)"]
  note A = T [THEN conjunct1, THEN mp, OF clean_cohort]
  note B = T [THEN conjunct2, THEN mp, OF conjI [OF wf plot3_cohort]]
  from wf clean_cohort A B show ?thesis by (intro conjI) (simp_all only: simp_thms)
qed

text \<open>
  C9 as stated fails: the label cleaning changes the shared frame, and the groups of the
  poverty-by-ethnicity comparison differ with the moment it is run, before or after the
  cleaning; the missingness analysis leaves a frame with one more column.
\<close>

theorem shared_frame_mutated_counterexample:
  "clean_ethnicity labelled_frame =
     Inr [(''ethnicity'',
           [Str ''None Of These'', Str ''Hispanic or Latino'', Str ''Not Hispanic or Latino'',
            Null]),
          (''fraction_poverty'', [Num 20, Num 12, Num 9, Num 11])] \<and>
   labelled_frame \<noteq>
     [(''ethnicity'',
       [Str ''None Of These'', Str ''Hispanic or Latino'', Str ''Not Hispanic or Latino'', Null]),
      (''fraction_poverty'', [Num 20, Num 12, Num 9, Num 11])] \<and>
   bnd (test_data_eth labelled_frame) groups_eth =
     Inr [Str ''What Race Ethnicity: Race Ethnicity None Of These'', Str ''Hispanic or Latino'',
          Str ''Not Hispanic or Latino''] \<and>
   bnd (bnd (clean_ethnicity labelled_frame) test_data_eth) groups_eth =
     Inr [Str ''None Of These'', Str ''Hispanic or Latino'', Str ''Not Hispanic or Latino''] \<and>
   map fst (fst (projr (plot3 (fixed_lib (Fl 0)) missing_frame))) =
     [''race'', ''median_income'', ''ses_data_missing'']"
  by (simp add: labelled_frame_def missing_frame_def clean_ethnicity_def getitem_def
      replace_value_def long_label_def short_label_def test_data_eth_def dropna_def df_mask_def
      select_def notna_def and_masks_def nrows_def groups_eth_def plot3_def missing_data_def
      add_ses_data_missing_def contingency_table_def fixed_lib_def isnull_def)

end
